theory Spec2Isabelle
  imports Complex_Main "HOL-Library.Log_Nat" "HOL-Library.Sublist"
begin

section \<open>Return codes (MT4Wrapper.h)\<close>

definition MT4_SUCCESS :: int where "MT4_SUCCESS = 0"
definition MT4_ERROR_NOT_INITIALIZED :: int where "MT4_ERROR_NOT_INITIALIZED = -1"
definition MT4_ERROR_ALREADY_INITIALIZED :: int where "MT4_ERROR_ALREADY_INITIALIZED = -2"
definition MT4_ERROR_CONNECTION_FAILED :: int where "MT4_ERROR_CONNECTION_FAILED = -3"
definition MT4_ERROR_LOGIN_FAILED :: int where "MT4_ERROR_LOGIN_FAILED = -4"
definition MT4_ERROR_NOT_CONNECTED :: int where "MT4_ERROR_NOT_CONNECTED = -5"
definition MT4_ERROR_INVALID_PARAMETER :: int where "MT4_ERROR_INVALID_PARAMETER = -6"
definition MT4_ERROR_BUFFER_TOO_SMALL :: int where "MT4_ERROR_BUFFER_TOO_SMALL = -7"
definition MT4_ERROR_INTERNAL :: int where "MT4_ERROR_INTERNAL = -99"

section \<open>Doubles\<close>

text \<open>
  A C++ \<open>double\<close> is modelled by the rational number it holds; only finite values are
  modelled (no NaN, no infinity), and the exponent range is not bounded, so overflow to
  infinity and subnormal rounding are outside the model. Every arithmetic result is
  rounded to a 53-bit significand, to nearest, ties to even, as IEEE 754 binary64 does.
\<close>

type_synonym double = rat

definition pow2 :: "int \<Rightarrow> rat" where
  "pow2 e = (if 0 \<le> e then 2 ^ nat e else 1 / 2 ^ nat (- e))"

definition ilog2 :: "rat \<Rightarrow> int" where
  \<comment> \<open>for \<open>0 < a\<close>: the exponent \<open>e\<close> with \<open>2^e \<le> a < 2^(e+1)\<close>\<close>
  "ilog2 a = (let (p, q) = quotient_of a; e0 = bitlen p - bitlen q
              in if pow2 e0 \<le> a then e0 else e0 - 1)"

definition round_half_even :: "rat \<Rightarrow> int" where
  "round_half_even q = (let f = \<lfloor>q\<rfloor>; r = q - of_int f
     in if r < 1 / 2 then f else if 1 / 2 < r then f + 1 else if even f then f else f + 1)"

definition to_double :: "rat \<Rightarrow> double" where
  "to_double x = (if x = 0 then 0
     else let a = \<bar>x\<bar>; e = ilog2 a - 52; m = round_half_even (a / pow2 e)
          in sgn x * of_int m * pow2 e)"

definition d_mul :: "double \<Rightarrow> double \<Rightarrow> double" where
  "d_mul a b = to_double (a * b)"

definition d_sub :: "double \<Rightarrow> double \<Rightarrow> double" where
  "d_sub a b = to_double (a - b)"

definition d_pow10 :: "int \<Rightarrow> double" where
  \<comment> \<open>\<open>pow(10, n)\<close> for an integer \<open>n\<close>\<close>
  "d_pow10 n = to_double (if 0 \<le> n then 10 ^ nat n else 1 / 10 ^ nat (- n))"

definition trunc_toward_zero :: "rat \<Rightarrow> int" where
  "trunc_toward_zero x = (if 0 \<le> x then \<lfloor>x\<rfloor> else \<lceil>x\<rceil>)"

definition double_to_int :: "double \<Rightarrow> int" where
  \<comment> \<open>the cast \<open>(int)x\<close>: truncation toward zero; a value outside the 32-bit range is
      undefined in C++ and gives the x86 conversion's result \<open>0x80000000\<close> here\<close>
  "double_to_int x = (let t = trunc_toward_zero x
     in if - (2 ^ 31) \<le> t \<and> t < 2 ^ 31 then t else - (2 ^ 31))"

definition lots_to_volume :: "double \<Rightarrow> int" where
  \<comment> \<open>\<open>(int)(volume * 100)\<close> of MT4_OpenTrade and MT4_CloseTrade\<close>
  "lots_to_volume volume = double_to_int (d_mul volume 100)"

section \<open>Strings\<close>

text \<open>
  A C string is the list of its characters before the terminating NUL. \<open>digit_char\<close>,
  \<open>show_nat\<close> and \<open>show_int\<close> are the stream's \<open>operator<<\<close> on an \<open>int\<close>.
\<close>

definition digit_char :: "nat \<Rightarrow> char" where
  "digit_char d = ''0123456789'' ! d"

fun show_nat :: "nat \<Rightarrow> string" where
  "show_nat n = (if n < 10 then [digit_char n] else show_nat (n div 10) @ [digit_char (n mod 10)])"

declare show_nat.simps [simp del]

definition show_int :: "int \<Rightarrow> string" where
  "show_int i = (if i < 0 then CHR ''-'' # show_nat (nat (- i)) else show_nat (nat i))"

fun find_first :: "string \<Rightarrow> string \<Rightarrow> nat option" where
  "find_first needle [] = (if needle = [] then Some 0 else None)"
| "find_first needle (c # cs) =
     (if prefix needle (c # cs) then Some 0 else map_option Suc (find_first needle cs))"

definition str_find :: "string \<Rightarrow> string \<Rightarrow> nat \<Rightarrow> nat option" where
  \<comment> \<open>\<open>hay.find(needle, pos)\<close>; \<open>None\<close> is \<open>npos\<close>\<close>
  "str_find hay needle pos =
     (if length hay < pos then None
      else map_option (\<lambda>i. i + pos) (find_first needle (drop pos hay)))"

definition substr :: "string \<Rightarrow> nat \<Rightarrow> nat \<Rightarrow> string" where
  \<comment> \<open>\<open>s.substr(pos, n)\<close> for \<open>pos \<le> length s\<close>\<close>
  "substr s pos n = take n (drop pos s)"

definition is_space :: "char \<Rightarrow> bool" where
  "is_space c = (c \<in> set [CHR '' '', CHR 0x09, CHR 0x0A, CHR 0x0B, CHR 0x0C, CHR 0x0D])"

definition is_digit :: "char \<Rightarrow> bool" where
  "is_digit c = (c \<in> set ''0123456789'')"

definition digit_val :: "char \<Rightarrow> int" where
  "digit_val c = int (of_char c) - 48"

definition INT_MAX :: int where "INT_MAX = 2 ^ 31 - 1"
definition INT_MIN :: int where "INT_MIN = - (2 ^ 31)"

definition atoi :: "string \<Rightarrow> int" where
  \<comment> \<open>leading white space, an optional sign, then the digits up to the first other
      character; no digits give 0; the Microsoft runtime saturates on overflow\<close>
  "atoi s = (let t = dropWhile is_space s;
                 neg = (t \<noteq> [] \<and> hd t = CHR ''-'');
                 u = (if t \<noteq> [] \<and> (hd t = CHR ''-'' \<or> hd t = CHR ''+'') then tl t else t);
                 v = foldl (\<lambda>acc c. acc * 10 + digit_val c) 0 (takeWhile is_digit u)
             in if neg then max INT_MIN (- v) else min INT_MAX v)"

section \<open>Records of the Manager API\<close>

text \<open>
  The structures are declared in MT4ManagerAPI.h, which is not among the sources; the
  fields below are the ones MT4Wrapper.cpp reads or writes. A character-array field holds
  a C string. The widths of the arrays the wrapper copies into, and the constants it
  names, are parameters (\<open>api\<close>).
\<close>

record UserRecord =
  u_login :: int
  u_group :: string
  u_password :: string
  u_enable :: int
  u_enable_change_password :: int
  u_name :: string
  u_email :: string
  u_leverage :: int
  u_balance :: double
  u_credit :: double

record TradeRecord =
  t_order :: int
  t_login :: int
  t_symbol :: string
  t_volume :: int
  t_close_price :: double
  t_profit :: double

record TradeTransInfo =
  tt_type :: int
  tt_cmd :: int
  tt_order :: int
  tt_orderby :: int
  tt_symbol :: string
  tt_volume :: int
  tt_price :: double
  tt_sl :: double
  tt_tp :: double
  tt_comment :: string

record ConSymbol =
  cs_symbol :: string
  cs_description :: string
  cs_digits :: int
  cs_contract_size :: double
  cs_currency :: string
  cs_type :: int

record SymbolInfo =
  si_symbol :: string
  si_digits :: int
  si_spread :: int
  si_lasttime :: int
  si_bid :: double
  si_ask :: double

record TickInfo =
  ti_ctm :: int
  ti_bid :: double
  ti_ask :: double

text \<open>The value of \<open>T x = {0}\<close> for each structure.\<close>

definition zero_UserRecord :: UserRecord where
  "zero_UserRecord = \<lparr>u_login = 0, u_group = [], u_password = [], u_enable = 0,
     u_enable_change_password = 0, u_name = [], u_email = [], u_leverage = 0,
     u_balance = 0, u_credit = 0\<rparr>"

definition zero_TradeRecord :: TradeRecord where
  "zero_TradeRecord = \<lparr>t_order = 0, t_login = 0, t_symbol = [], t_volume = 0,
     t_close_price = 0, t_profit = 0\<rparr>"

definition zero_TradeTransInfo :: TradeTransInfo where
  "zero_TradeTransInfo = \<lparr>tt_type = 0, tt_cmd = 0, tt_order = 0, tt_orderby = 0,
     tt_symbol = [], tt_volume = 0, tt_price = 0, tt_sl = 0, tt_tp = 0, tt_comment = []\<rparr>"

definition zero_SymbolInfo :: SymbolInfo where
  "zero_SymbolInfo = \<lparr>si_symbol = [], si_digits = 0, si_spread = 0, si_lasttime = 0,
     si_bid = 0, si_ask = 0\<rparr>"

record api =
  RET_OK :: int
  TT_ORDER_CLOSE_BY :: int
  OP_BUY :: int
  ManAPIVersion :: int
  sizeof_user_group :: nat
  sizeof_user_password :: nat
  sizeof_user_name :: nat
  sizeof_user_email :: nat
  sizeof_trans_symbol :: nat
  sizeof_trans_comment :: nat

section \<open>Calls, outcomes and the session\<close>

text \<open>
  Every call the wrapper makes outside itself is logged: the methods of the manager
  factory and of the manager interface (the remote capability), and the calls into the
  operating system and the C runtime's clock. A block of remote-owned memory is named by
  its address.
\<close>

datatype call =
    C_WSAStartup | C_WSACleanup | C_GetCurrentDirectory | C_Sleep int | C_time
  | F_new | F_delete | F_IsValid | F_WinsockStartup | F_WinsockCleanup | F_Create int
  | M_Release | M_IsConnected | M_WorkingDirectory string | M_Connect string
  | M_ErrorDescription int | M_Login int string | M_Disconnect | M_Ping
  | M_MemFree nat
  | M_UserRecordsRequest "int list" | M_UsersRequest
  | M_UserRecordNew UserRecord | M_UserRecordGet int | M_UserRecordUpdate UserRecord
  | M_TradesUserHistory int int int | M_TradesRequest
  | M_TradeRecordGet int | M_TradeTransaction TradeTransInfo
  | M_SymbolsRefresh | M_SymbolsGetAll | M_SymbolInfoUpdated int
  | M_SymbolInfoGet string | M_TickInfoLast string

datatype exn = StdException string | OtherException

text \<open>
  How a computation ends: with a value, with a C++ exception in flight, or in the C
  runtime's invalid parameter handler, which a secure string function calls when its
  destination is too small and which by default ends the process.
\<close>

datatype 'a res = Val 'a | Throw exn | InvalidParameterHandler

text \<open>
  A record request returns \<open>None\<close> for a null pointer and \<open>Some (a, xs)\<close> for the block
  at address \<open>a\<close> holding the records \<open>xs\<close>; the count it stores through its \<open>total\<close>
  argument is \<open>length xs\<close>. A method that fills a caller's structure takes the structure
  and returns it with its status. \<open>SymbolInfoUpdated\<close> answers with the entries it
  has put into the caller's array, none when it reports an error. Each answer may depend
  on the calls made so far. \<open>MemFree\<close> returns nothing and is taken not to raise; it
  is logged only.
\<close>

record manager =
  m_Release :: "call list \<Rightarrow> unit res"
  m_IsConnected :: "call list \<Rightarrow> int res"
  m_WorkingDirectory :: "string \<Rightarrow> call list \<Rightarrow> unit res"
  m_Connect :: "string \<Rightarrow> call list \<Rightarrow> int res"
  m_ErrorDescription :: "int \<Rightarrow> call list \<Rightarrow> string option res"
  m_Login :: "int \<Rightarrow> string \<Rightarrow> call list \<Rightarrow> int res"
  m_Disconnect :: "call list \<Rightarrow> int res"
  m_Ping :: "call list \<Rightarrow> int res"
  m_UserRecordsRequest :: "int list \<Rightarrow> call list \<Rightarrow> (nat \<times> UserRecord list) option res"
  m_UsersRequest :: "call list \<Rightarrow> (nat \<times> UserRecord list) option res"
  m_UserRecordNew :: "UserRecord \<Rightarrow> call list \<Rightarrow> (int \<times> UserRecord) res"
  m_UserRecordGet :: "int \<Rightarrow> UserRecord \<Rightarrow> call list \<Rightarrow> (int \<times> UserRecord) res"
  m_UserRecordUpdate :: "UserRecord \<Rightarrow> call list \<Rightarrow> (int \<times> UserRecord) res"
  m_TradesUserHistory :: "int \<Rightarrow> int \<Rightarrow> int \<Rightarrow> call list \<Rightarrow> (nat \<times> TradeRecord list) option res"
  m_TradesRequest :: "call list \<Rightarrow> (nat \<times> TradeRecord list) option res"
  m_TradeRecordGet :: "int \<Rightarrow> TradeRecord \<Rightarrow> call list \<Rightarrow> (int \<times> TradeRecord) res"
  m_TradeTransaction :: "TradeTransInfo \<Rightarrow> call list \<Rightarrow> (int \<times> TradeTransInfo) res"
  m_SymbolsRefresh :: "call list \<Rightarrow> int res"
  m_SymbolsGetAll :: "call list \<Rightarrow> (nat \<times> ConSymbol list) option res"
  m_SymbolInfoUpdated :: "int \<Rightarrow> call list \<Rightarrow> SymbolInfo list res"
  m_SymbolInfoGet :: "string \<Rightarrow> SymbolInfo \<Rightarrow> call list \<Rightarrow> (int \<times> SymbolInfo) res"
  m_TickInfoLast :: "string \<Rightarrow> call list \<Rightarrow> (nat \<times> TickInfo list) option res"

record platform =
  os_WSAStartup :: "call list \<Rightarrow> int res"
  os_GetCurrentDirectory :: "call list \<Rightarrow> (nat \<times> string) res"
  os_time :: "call list \<Rightarrow> int res"
  f_new :: "call list \<Rightarrow> unit res"
  f_IsValid :: "call list \<Rightarrow> bool res"
  f_WinsockStartup :: "call list \<Rightarrow> int res"
  f_WinsockCleanup :: "call list \<Rightarrow> unit res"
  f_Create :: "int \<Rightarrow> call list \<Rightarrow> bool res"
  fmt_double :: "double \<Rightarrow> string"

text \<open>
  \<open>f_Create\<close> answers whether the manager pointer it returns is non-null, and
  \<open>fmt_double\<close> is the stream's \<open>operator<<\<close> on a \<open>double\<close>.
\<close>

record env =
  consts_of :: api
  mgr :: manager
  sys :: platform

text \<open>
  The wrapper's globals, the log of the calls made so far, and the caller's memory: a
  \<open>char*\<close> argument is \<open>None\<close> (a null pointer) or the address of a buffer whose
  bytes \<open>heap\<close> holds.
\<close>

record session =
  g_pManager :: bool
  g_pFactory :: bool
  g_lastError :: string
  g_initialized :: bool
  g_bypassMode :: bool
  g_mockConnected :: bool
  trace :: "call list"
  heap :: "nat \<Rightarrow> char list"

type_synonym 'a prog = "session \<Rightarrow> 'a res \<times> session"

definition ret :: "'a \<Rightarrow> 'a prog" where
  "ret v s = (Val v, s)"

definition and_then :: "'a prog \<Rightarrow> ('a \<Rightarrow> 'b prog) \<Rightarrow> 'b prog" where
  "and_then m k s =
     (case m s of
        (Val v, s') \<Rightarrow> k v s'
      | (Throw e, s') \<Rightarrow> (Throw e, s')
      | (InvalidParameterHandler, s') \<Rightarrow> (InvalidParameterHandler, s'))"

definition next_do :: "'a prog \<Rightarrow> 'b prog \<Rightarrow> 'b prog" where
  "next_do m k = and_then m (\<lambda>_. k)"

definition try_catch :: "'a prog \<Rightarrow> (string \<Rightarrow> 'a prog) \<Rightarrow> 'a prog \<Rightarrow> 'a prog" where
  \<comment> \<open>\<open>try { body } catch (const std::exception& e) { on_std e.what() } catch (...) { on_other }\<close>\<close>
  "try_catch body on_std on_other s =
     (case body s of
        (Throw (StdException what), s') \<Rightarrow> on_std what s'
      | (Throw OtherException, s') \<Rightarrow> on_other s'
      | r \<Rightarrow> r)"

definition try_catch_all :: "'a prog \<Rightarrow> 'a prog \<Rightarrow> 'a prog" where
  \<comment> \<open>\<open>try { body } catch (...) { handler }\<close>\<close>
  "try_catch_all body handler = try_catch body (\<lambda>_. handler) handler"

definition invoke :: "call \<Rightarrow> (call list \<Rightarrow> 'a res) \<Rightarrow> 'a prog" where
  "invoke c f s = (f (trace s), s\<lparr>trace := trace s @ [c]\<rparr>)"

definition SetError :: "string option \<Rightarrow> unit prog" where
  "SetError error s = (Val (), s\<lparr>g_lastError := (case error of Some e \<Rightarrow> e | None \<Rightarrow> [])\<rparr>)"

definition fail_with :: "string \<Rightarrow> int \<Rightarrow> int prog" where
  \<comment> \<open>\<open>SetError(msg); return code;\<close>\<close>
  "fail_with msg code = next_do (SetError (Some msg)) (ret code)"

definition succeed :: "int prog" where
  \<comment> \<open>\<open>SetError(""); return MT4_SUCCESS;\<close>\<close>
  "succeed = next_do (SetError (Some [])) (ret MT4_SUCCESS)"

definition not_ready :: "session \<Rightarrow> bool" where
  \<comment> \<open>\<open>!g_initialized || !g_pManager\<close>\<close>
  "not_ready s = (\<not> g_initialized s \<or> \<not> g_pManager s)"

text \<open>The secure copies of the C runtime.\<close>

definition strcpy_s :: "nat \<Rightarrow> string \<Rightarrow> string res" where
  \<comment> \<open>\<open>strcpy_s(dest, src)\<close> into a character array of \<open>sz\<close> bytes: the new C string
      of \<open>dest\<close>, or the invalid parameter handler when \<open>src\<close> and its NUL do not fit\<close>
  "strcpy_s sz src = (if length src < sz then Val src else InvalidParameterHandler)"

definition res_then :: "'a res \<Rightarrow> ('a \<Rightarrow> 'b res) \<Rightarrow> 'b res" where
  "res_then r k = (case r of Val v \<Rightarrow> k v | Throw e \<Rightarrow> Throw e
                   | InvalidParameterHandler \<Rightarrow> InvalidParameterHandler)"

definition lift :: "'a res \<Rightarrow> 'a prog" where
  \<comment> \<open>a step that reads and writes no global and calls nothing\<close>
  "lift r s = (r, s)"

definition store_string :: "nat \<Rightarrow> string \<Rightarrow> (nat \<Rightarrow> char list) \<Rightarrow> (nat \<Rightarrow> char list)" where
  \<comment> \<open>the caller's memory with the C string \<open>src\<close> at \<open>buffer\<close>: the characters, the NUL,
      and the bytes behind them as they were\<close>
  "store_string buffer src h =
     h(buffer := src @ [CHR 0x00] @ drop (Suc (length src)) (h buffer))"

definition strcpy_s_buffer :: "nat \<Rightarrow> int \<Rightarrow> string \<Rightarrow> unit prog" where
  \<comment> \<open>\<open>strcpy_s(buffer, bufferSize, src)\<close> into the caller's memory\<close>
  "strcpy_s_buffer buffer bufferSize src s =
     (if int (length src) < bufferSize
      then (Val (), s\<lparr>heap := store_string buffer src (heap s)\<rparr>)
      else (InvalidParameterHandler, s))"

definition SafeIsConnected :: "env \<Rightarrow> bool prog" where
  "SafeIsConnected env s =
     (if not_ready s then (Val False, s)
      else try_catch_all
             (and_then (invoke M_IsConnected (m_IsConnected (mgr env))) (\<lambda>r. ret (r \<noteq> 0)))
             (ret False) s)"

definition modify :: "(session \<Rightarrow> session) \<Rightarrow> unit prog" where
  "modify f s = (Val (), f s)"

definition log_call :: "call \<Rightarrow> unit prog" where
  \<comment> \<open>a call that returns nothing the wrapper reads and raises nothing\<close>
  "log_call c = invoke c (\<lambda>_. Val ())"

definition fail_described :: "env \<Rightarrow> int \<Rightarrow> string \<Rightarrow> int \<Rightarrow> int prog" where
  \<comment> \<open>\<open>errorDesc = g_pManager->ErrorDescription(result);
      SetError(errorDesc ? errorDesc : fallback); return code;\<close>\<close>
  "fail_described env result fallback code =
     and_then (invoke (M_ErrorDescription result) (m_ErrorDescription (mgr env) result))
       (\<lambda>errorDesc. next_do (SetError (Some (case errorDesc of Some d \<Rightarrow> d | None \<Rightarrow> fallback)))
          (ret code))"

section \<open>Session lifecycle\<close>

definition rollback_factory :: "unit prog" where
  \<comment> \<open>\<open>delete g_pFactory; g_pFactory = nullptr; WSACleanup();\<close>\<close>
  "rollback_factory =
     next_do (log_call F_delete)
    (next_do (modify (\<lambda>s. s\<lparr>g_pFactory := False\<rparr>))
             (log_call C_WSACleanup))"

definition rollback_on_exception :: "unit prog" where
  \<comment> \<open>\<open>if (g_pFactory) { delete g_pFactory; g_pFactory = nullptr; } WSACleanup();\<close>\<close>
  "rollback_on_exception s =
     (if g_pFactory s then rollback_factory s else log_call C_WSACleanup s)"

definition MT4_Initialize :: "env \<Rightarrow> int prog" where
  "MT4_Initialize env s =
     (if g_initialized s then fail_with ''Already initialized'' MT4_ERROR_ALREADY_INITIALIZED s
      else try_catch
        (and_then (invoke C_WSAStartup (os_WSAStartup (sys env))) (\<lambda>wsa.
           if wsa \<noteq> 0 then fail_with ''Failed to initialize Winsock'' MT4_ERROR_INTERNAL
           else
             next_do (invoke F_new (f_new (sys env)))
            (next_do (modify (\<lambda>s. s\<lparr>g_pFactory := True\<rparr>))
            (and_then (invoke F_IsValid (f_IsValid (sys env))) (\<lambda>valid.
               if \<not> valid
               then next_do rollback_factory
                      (fail_with ''Failed to load mtmanapi.dll'' MT4_ERROR_INTERNAL)
               else
                 next_do (invoke F_WinsockStartup (f_WinsockStartup (sys env)))
                (and_then (invoke (F_Create (ManAPIVersion (consts_of env)))
                            (f_Create (sys env) (ManAPIVersion (consts_of env)))) (\<lambda>created.
                 next_do (modify (\<lambda>s. s\<lparr>g_pManager := created\<rparr>))
                   (if \<not> created
                    then next_do rollback_factory
                           (fail_with ''Failed to create manager instance'' MT4_ERROR_INTERNAL)
                    else next_do (modify (\<lambda>s. s\<lparr>g_initialized := True\<rparr>)) succeed))))))))
        (\<lambda>what. next_do rollback_on_exception (fail_with what MT4_ERROR_INTERNAL))
        (next_do rollback_on_exception
           (fail_with ''Unknown error during initialization'' MT4_ERROR_INTERNAL)) s)"

definition MT4_Shutdown :: "env \<Rightarrow> unit prog" where
  "MT4_Shutdown env =
     next_do (\<lambda>s. if g_pManager s
                   then next_do (invoke M_Release (m_Release (mgr env)))
                          (modify (\<lambda>s. s\<lparr>g_pManager := False\<rparr>)) s
                   else ret () s)
    (next_do (\<lambda>s. if g_pFactory s
                   then next_do (invoke F_WinsockCleanup (f_WinsockCleanup (sys env)))
                       (next_do (log_call F_delete)
                          (modify (\<lambda>s. s\<lparr>g_pFactory := False\<rparr>))) s
                   else ret () s)
    (next_do (modify (\<lambda>s. s\<lparr>g_initialized := False, g_mockConnected := False\<rparr>))
    (next_do (SetError (Some []))
             (log_call C_WSACleanup))))"

section \<open>Connection state machine\<close>

definition MT4_Connect :: "env \<Rightarrow> string option \<Rightarrow> int prog" where
  "MT4_Connect env server s =
     (if not_ready s then fail_with ''Not initialized'' MT4_ERROR_NOT_INITIALIZED s
      else case server of
        None \<Rightarrow> fail_with ''Invalid server parameter'' MT4_ERROR_INVALID_PARAMETER s
      | Some srv \<Rightarrow>
          try_catch
            (let serverCopy = take 255 srv in
             and_then (invoke C_GetCurrentDirectory (os_GetCurrentDirectory (sys env)))
               (\<lambda>(n, currentPath).
             next_do (if 0 < n
                      then invoke (M_WorkingDirectory currentPath)
                             (m_WorkingDirectory (mgr env) currentPath)
                      else ret ())
            (next_do (log_call (C_Sleep 100))
            (and_then (invoke (M_Connect serverCopy) (m_Connect (mgr env) serverCopy))
               (\<lambda>result.
                  if result = RET_OK (consts_of env) then succeed
                  else fail_described env result ''Connection failed''
                         MT4_ERROR_CONNECTION_FAILED)))))
            (\<lambda>what. fail_with what MT4_ERROR_INTERNAL)
            (fail_with ''Unknown error during connection'' MT4_ERROR_INTERNAL) s)"

definition MT4_Login :: "env \<Rightarrow> int \<Rightarrow> string option \<Rightarrow> int prog" where
  "MT4_Login env login password s =
     (if not_ready s then fail_with ''Not initialized'' MT4_ERROR_NOT_INITIALIZED s
      else case password of
        None \<Rightarrow> fail_with ''Invalid password parameter'' MT4_ERROR_INVALID_PARAMETER s
      | Some pwd \<Rightarrow>
          try_catch
            (and_then (invoke (M_Login login pwd) (m_Login (mgr env) login pwd))
               (\<lambda>result.
                  if result = RET_OK (consts_of env) then succeed
                  else fail_described env result ''Login failed'' MT4_ERROR_LOGIN_FAILED))
            (\<lambda>what. fail_with what MT4_ERROR_INTERNAL)
            (fail_with ''Unknown error during login'' MT4_ERROR_INTERNAL) s)"

definition MT4_Disconnect :: "env \<Rightarrow> int prog" where
  "MT4_Disconnect env s =
     (if not_ready s then fail_with ''Not initialized'' MT4_ERROR_NOT_INITIALIZED s
      else try_catch_all
             (and_then (invoke M_Disconnect (m_Disconnect (mgr env))) (\<lambda>result.
              next_do (SetError (Some []))
                (ret (if result = RET_OK (consts_of env) then MT4_SUCCESS
                      else MT4_ERROR_INTERNAL))))
             (fail_with ''Error during disconnect'' MT4_ERROR_INTERNAL) s)"

definition MT4_IsConnected :: "env \<Rightarrow> int prog" where
  "MT4_IsConnected env = and_then (SafeIsConnected env) (\<lambda>c. ret (if c then 1 else 0))"

definition MT4_GetLastError :: "string prog" where
  "MT4_GetLastError s = (Val (g_lastError s), s)"

definition MT4_Ping :: "env \<Rightarrow> int prog" where
  "MT4_Ping env s =
     (if not_ready s then fail_with ''Not initialized'' MT4_ERROR_NOT_INITIALIZED s
      else and_then (SafeIsConnected env) (\<lambda>c.
             if \<not> c then fail_with ''Not connected'' MT4_ERROR_NOT_CONNECTED
             else try_catch_all
                    (and_then (invoke M_Ping (m_Ping (mgr env))) (\<lambda>result.
                       ret (if result = RET_OK (consts_of env) then MT4_SUCCESS
                            else MT4_ERROR_INTERNAL)))
                    (fail_with ''Error during ping'' MT4_ERROR_INTERNAL)) s)"

section \<open>Bounded serializer\<close>

definition user_info_json :: "env \<Rightarrow> UserRecord \<Rightarrow> string" where
  "user_info_json env u =
     ''{\"login\":'' @ show_int (u_login u)
     @ '',\"name\":\"'' @ u_name u @ ''\"''
     @ '',\"email\":\"'' @ u_email u @ ''\"''
     @ '',\"balance\":'' @ fmt_double (sys env) (u_balance u)
     @ '',\"credit\":'' @ fmt_double (sys env) (u_credit u)
     @ '',\"leverage\":'' @ show_int (u_leverage u)
     @ '',\"group\":\"'' @ u_group u @ ''\"}''"

definition user_item_json :: "env \<Rightarrow> UserRecord \<Rightarrow> string" where
  "user_item_json env u =
     ''{\"login\":'' @ show_int (u_login u)
     @ '',\"name\":\"'' @ u_name u @ ''\"''
     @ '',\"balance\":'' @ fmt_double (sys env) (u_balance u) @ ''}''"

definition trade_item_json :: "env \<Rightarrow> TradeRecord \<Rightarrow> string" where
  "trade_item_json env t =
     ''{\"order\":'' @ show_int (t_order t)
     @ '',\"login\":'' @ show_int (t_login t)
     @ '',\"symbol\":\"'' @ t_symbol t @ ''\"''
     @ '',\"volume\":'' @ show_int (t_volume t)
     @ '',\"profit\":'' @ fmt_double (sys env) (t_profit t) @ ''}''"

definition symbol_item_json :: "env \<Rightarrow> ConSymbol \<Rightarrow> string" where
  "symbol_item_json env c =
     ''{\"symbol\":\"'' @ cs_symbol c @ ''\"''
     @ '',\"description\":\"'' @ cs_description c @ ''\"''
     @ '',\"digits\":'' @ show_int (cs_digits c)
     @ '',\"contractSize\":'' @ fmt_double (sys env) (cs_contract_size c)
     @ '',\"currency\":\"'' @ cs_currency c @ ''\"''
     @ '',\"type\":'' @ show_int (cs_type c) @ ''}''"

definition json_array :: "nat \<Rightarrow> ('a \<Rightarrow> string) \<Rightarrow> 'a list \<Rightarrow> string" where
  \<comment> \<open>\<open>json << "["; for (i = 0; i < total && i < limit; i++) { if (i > 0) json << ",";
      json << item(xs[i]); } json << "]";\<close>\<close>
  "json_array limit item xs =
     ''['' @ concat (map (\<lambda>(i, x). (if 0 < i then '','' else []) @ item x)
                      (enumerate 0 (take limit xs))) @ '']''"

definition quote_json :: "env \<Rightarrow> string \<Rightarrow> double \<Rightarrow> double \<Rightarrow> int \<Rightarrow> int \<Rightarrow> int \<Rightarrow> string" where
  "quote_json env symbol bid ask spread digits tm =
     ''{'' @ ''\"symbol\":\"'' @ symbol @ ''\",''
     @ ''\"bid\":'' @ fmt_double (sys env) bid @ '',''
     @ ''\"ask\":'' @ fmt_double (sys env) ask @ '',''
     @ ''\"spread\":'' @ show_int spread @ '',''
     @ ''\"digits\":'' @ show_int digits @ '',''
     @ ''\"time\":'' @ show_int tm @ ''}''"

text \<open>
  In the operations below \<open>bufferSize\<close> has been found positive before it is compared, so
  the cast \<open>(size_t)bufferSize\<close> keeps its value.
\<close>

definition MT4_GetUserInfo :: "env \<Rightarrow> int \<Rightarrow> nat option \<Rightarrow> int \<Rightarrow> int prog" where
  "MT4_GetUserInfo env login buffer bufferSize s =
     (if not_ready s then fail_with ''Not initialized'' MT4_ERROR_NOT_INITIALIZED s
      else case buffer of
        None \<Rightarrow> fail_with ''Invalid buffer parameter'' MT4_ERROR_INVALID_PARAMETER s
      | Some buf \<Rightarrow>
          if bufferSize \<le> 0
          then fail_with ''Invalid buffer parameter'' MT4_ERROR_INVALID_PARAMETER s
          else try_catch
            (and_then (invoke (M_UserRecordsRequest [login])
                         (m_UserRecordsRequest (mgr env) [login])) (\<lambda>users.
               case users of
                 Some (a, u # us) \<Rightarrow>
                   (let result = user_info_json env u in
                    if bufferSize \<le> int (length result)
                    then next_do (log_call (M_MemFree a))
                           (fail_with ''Buffer too small'' MT4_ERROR_BUFFER_TOO_SMALL)
                    else next_do (strcpy_s_buffer buf bufferSize result)
                        (next_do (log_call (M_MemFree a)) succeed))
               | _ \<Rightarrow> fail_with ''User not found'' MT4_ERROR_INTERNAL))
            (\<lambda>what. fail_with what MT4_ERROR_INTERNAL)
            (fail_with ''Unknown error'' MT4_ERROR_INTERNAL) s)"

definition MT4_GetAllUsers :: "env \<Rightarrow> nat option \<Rightarrow> int \<Rightarrow> int prog" where
  "MT4_GetAllUsers env buffer bufferSize s =
     (if not_ready s then fail_with ''Not initialized'' MT4_ERROR_NOT_INITIALIZED s
      else case buffer of
        None \<Rightarrow> fail_with ''Invalid buffer parameter'' MT4_ERROR_INVALID_PARAMETER s
      | Some buf \<Rightarrow>
          if bufferSize \<le> 0
          then fail_with ''Invalid buffer parameter'' MT4_ERROR_INVALID_PARAMETER s
          else try_catch
            (and_then (invoke M_UsersRequest (m_UsersRequest (mgr env))) (\<lambda>users.
               case users of
                 Some (a, u # us) \<Rightarrow>
                   (let result = json_array 100 (user_item_json env) (u # us) in
                    if bufferSize \<le> int (length result)
                    then next_do (log_call (M_MemFree a))
                           (fail_with ''Buffer too small'' MT4_ERROR_BUFFER_TOO_SMALL)
                    else next_do (strcpy_s_buffer buf bufferSize result)
                        (next_do (log_call (M_MemFree a)) succeed))
               | _ \<Rightarrow> next_do (strcpy_s_buffer buf bufferSize ''[]'') succeed))
            (\<lambda>what. fail_with what MT4_ERROR_INTERNAL)
            (fail_with ''Unknown error'' MT4_ERROR_INTERNAL) s)"

definition MT4_GetTrades :: "env \<Rightarrow> int \<Rightarrow> nat option \<Rightarrow> int \<Rightarrow> int prog" where
  "MT4_GetTrades env login buffer bufferSize s =
     (if not_ready s then fail_with ''Not initialized'' MT4_ERROR_NOT_INITIALIZED s
      else case buffer of
        None \<Rightarrow> fail_with ''Invalid buffer parameter'' MT4_ERROR_INVALID_PARAMETER s
      | Some buf \<Rightarrow>
          if bufferSize \<le> 0
          then fail_with ''Invalid buffer parameter'' MT4_ERROR_INVALID_PARAMETER s
          else try_catch
            (and_then
               (if 0 < login
                then and_then (invoke C_time (os_time (sys env))) (\<lambda>now.
                       invoke (M_TradesUserHistory login 0 now)
                         (m_TradesUserHistory (mgr env) login 0 now))
                else invoke M_TradesRequest (m_TradesRequest (mgr env))) (\<lambda>trades.
               case trades of
                 Some (a, t # ts) \<Rightarrow>
                   (let result = json_array 100 (trade_item_json env) (t # ts) in
                    if bufferSize \<le> int (length result)
                    then next_do (log_call (M_MemFree a))
                           (fail_with ''Buffer too small'' MT4_ERROR_BUFFER_TOO_SMALL)
                    else next_do (strcpy_s_buffer buf bufferSize result)
                        (next_do (log_call (M_MemFree a)) succeed))
               | _ \<Rightarrow> next_do (strcpy_s_buffer buf bufferSize ''[]'') succeed))
            (\<lambda>what. fail_with what MT4_ERROR_INTERNAL)
            (fail_with ''Unknown error'' MT4_ERROR_INTERNAL) s)"

definition MT4_GetSymbols :: "env \<Rightarrow> nat option \<Rightarrow> int \<Rightarrow> int prog" where
  "MT4_GetSymbols env buffer bufferSize s =
     (if not_ready s then fail_with ''Not initialized'' MT4_ERROR_NOT_INITIALIZED s
      else case buffer of
        None \<Rightarrow> fail_with ''Invalid buffer parameter'' MT4_ERROR_INVALID_PARAMETER s
      | Some buf \<Rightarrow>
          if bufferSize \<le> 0
          then fail_with ''Invalid buffer parameter'' MT4_ERROR_INVALID_PARAMETER s
          else try_catch
            (next_do (invoke M_SymbolsRefresh (m_SymbolsRefresh (mgr env)))
            (and_then (invoke M_SymbolsGetAll (m_SymbolsGetAll (mgr env))) (\<lambda>symbols.
               case symbols of
                 Some (a, c # cs) \<Rightarrow>
                   (let result = json_array 50 (symbol_item_json env) (c # cs) in
                    if bufferSize \<le> int (length result)
                    then next_do (log_call (M_MemFree a))
                           (fail_with ''Buffer too small'' MT4_ERROR_BUFFER_TOO_SMALL)
                    else next_do (strcpy_s_buffer buf bufferSize result)
                        (next_do (log_call (M_MemFree a)) succeed))
               | _ \<Rightarrow> next_do (strcpy_s_buffer buf bufferSize ''[]'') succeed)))
            (\<lambda>what. fail_with what MT4_ERROR_INTERNAL)
            (fail_with ''Unknown error getting symbols'' MT4_ERROR_INTERNAL) s)"

section \<open>Trade transaction translator\<close>

definition open_trade_info ::
  "api \<Rightarrow> string \<Rightarrow> int \<Rightarrow> double \<Rightarrow> double \<Rightarrow> double \<Rightarrow> double \<Rightarrow> string option
     \<Rightarrow> TradeTransInfo res" where
  \<comment> \<open>the request MT4_OpenTrade fills in: \<open>TradeTransInfo trade = {0}; trade.type = cmd; ...\<close>\<close>
  "open_trade_info api symbol cmd volume price stoploss takeprofit comment =
     res_then (strcpy_s (sizeof_trans_symbol api) symbol) (\<lambda>tsymbol.
       Val (zero_TradeTransInfo\<lparr>tt_type := cmd, tt_cmd := cmd, tt_symbol := tsymbol,
              tt_volume := lots_to_volume volume, tt_price := price, tt_sl := stoploss,
              tt_tp := takeprofit,
              tt_comment := (case comment of
                               Some c \<Rightarrow> take (sizeof_trans_comment api - 1) c
                             | None \<Rightarrow> [])\<rparr>))"

definition close_trade_info :: "api \<Rightarrow> int \<Rightarrow> double \<Rightarrow> double \<Rightarrow> TradeRecord \<Rightarrow> TradeTransInfo res" where
  \<comment> \<open>the request MT4_CloseTrade fills in from the order \<open>trade\<close> it has fetched\<close>
  "close_trade_info api order lots price trade =
     res_then (strcpy_s (sizeof_trans_symbol api) (t_symbol trade)) (\<lambda>csymbol.
       Val (zero_TradeTransInfo\<lparr>tt_type := TT_ORDER_CLOSE_BY api, tt_cmd := OP_BUY api,
              tt_order := order, tt_orderby := order,
              tt_volume := (if 0 < lots then lots_to_volume lots else t_volume trade),
              tt_price := (if 0 < price then price else t_close_price trade),
              tt_symbol := csymbol\<rparr>))"

definition order_json :: "TradeTransInfo \<Rightarrow> string" where
  "order_json trade = ''{\"order\":'' @ show_int (tt_order trade) @ ''}''"

definition MT4_OpenTrade ::
  "env \<Rightarrow> int \<Rightarrow> string option \<Rightarrow> int \<Rightarrow> double \<Rightarrow> double \<Rightarrow> double \<Rightarrow> double
     \<Rightarrow> string option \<Rightarrow> nat option \<Rightarrow> int \<Rightarrow> int prog" where
  "MT4_OpenTrade env login symbol cmd volume price stoploss takeprofit comment buffer bufferSize s =
     (if not_ready s then fail_with ''Not initialized'' MT4_ERROR_NOT_INITIALIZED s
      else case (symbol, buffer) of
        (Some symb, Some buf) \<Rightarrow>
          if bufferSize \<le> 0 then fail_with ''Invalid parameters'' MT4_ERROR_INVALID_PARAMETER s
          else and_then (SafeIsConnected env) (\<lambda>c.
            if \<not> c then fail_with ''Not connected'' MT4_ERROR_NOT_CONNECTED
            else try_catch
              (and_then (lift (open_trade_info (consts_of env) symb cmd volume price stoploss
                                 takeprofit comment)) (\<lambda>trade.
               and_then (invoke (M_TradeTransaction trade) (m_TradeTransaction (mgr env) trade))
                 (\<lambda>(result, trade').
                  if result = RET_OK (consts_of env)
                  then (let resultStr = order_json trade' in
                        if bufferSize \<le> int (length resultStr)
                        then fail_with ''Buffer too small'' MT4_ERROR_BUFFER_TOO_SMALL
                        else next_do (strcpy_s_buffer buf bufferSize resultStr) succeed)
                  else fail_described env result ''Trade transaction failed'' MT4_ERROR_INTERNAL)))
              (\<lambda>what. fail_with what MT4_ERROR_INTERNAL)
              (fail_with ''Unknown error opening trade'' MT4_ERROR_INTERNAL)) s
      | _ \<Rightarrow> fail_with ''Invalid parameters'' MT4_ERROR_INVALID_PARAMETER s)"

definition MT4_CloseTrade :: "env \<Rightarrow> int \<Rightarrow> double \<Rightarrow> double \<Rightarrow> int prog" where
  "MT4_CloseTrade env order lots price s =
     (if not_ready s then fail_with ''Not initialized'' MT4_ERROR_NOT_INITIALIZED s
      else and_then (SafeIsConnected env) (\<lambda>c.
        if \<not> c then fail_with ''Not connected'' MT4_ERROR_NOT_CONNECTED
        else try_catch
          (and_then (invoke (M_TradeRecordGet order)
                       (m_TradeRecordGet (mgr env) order zero_TradeRecord)) (\<lambda>(result, trade).
             if result \<noteq> RET_OK (consts_of env)
             then fail_with ''Trade not found'' MT4_ERROR_INTERNAL
             else and_then (lift (close_trade_info (consts_of env) order lots price trade))
                    (\<lambda>closeTrade.
                  and_then (invoke (M_TradeTransaction closeTrade)
                              (m_TradeTransaction (mgr env) closeTrade)) (\<lambda>(result, _).
                    if result = RET_OK (consts_of env) then succeed
                    else fail_described env result ''Close trade failed'' MT4_ERROR_INTERNAL))))
          (\<lambda>what. fail_with what MT4_ERROR_INTERNAL)
          (fail_with ''Unknown error closing trade'' MT4_ERROR_INTERNAL)) s)"

section \<open>Ad-hoc field extractor\<close>

definition extract_login :: "string \<Rightarrow> int \<Rightarrow> int" where
  \<comment> \<open>\<open>pos = json.find("\"login\":"); if (pos != npos) login = atoi(json.c_str() + pos + 8);\<close>\<close>
  "extract_login json current =
     (case str_find json ''\"login\":'' 0 of
        None \<Rightarrow> current
      | Some pos \<Rightarrow> atoi (drop (pos + 8) json))"

definition extract_string :: "string \<Rightarrow> string \<Rightarrow> nat \<Rightarrow> nat \<Rightarrow> string \<Rightarrow> string res" where
  \<comment> \<open>\<open>pos = json.find(marker); if (pos != npos) { endPos = json.find("\"", pos + off);
      if (endPos != npos) strcpy_s(field, json.substr(pos + off, endPos - pos - off)); }\<close>
      for a field of \<open>sz\<close> bytes that holds \<open>current\<close>\<close>
  "extract_string json marker off sz current =
     (case str_find json marker 0 of
        None \<Rightarrow> Val current
      | Some pos \<Rightarrow>
          (case str_find json ''\"'' (pos + off) of
             None \<Rightarrow> Val current
           | Some endPos \<Rightarrow> strcpy_s sz (substr json (pos + off) (endPos - pos - off))))"

definition new_user_from_json :: "api \<Rightarrow> string \<Rightarrow> UserRecord res" where
  \<comment> \<open>MT4_CreateUser from \<open>UserRecord user = {0}\<close> to the defaults it sets last\<close>
  "new_user_from_json api json =
     (let login = extract_login json (u_login zero_UserRecord) in
      res_then (extract_string json ''\"password\":\"'' 12 (sizeof_user_password api)
                  (u_password zero_UserRecord)) (\<lambda>password.
      res_then (extract_string json ''\"group\":\"'' 9 (sizeof_user_group api)
                  (u_group zero_UserRecord)) (\<lambda>grp.
      res_then (extract_string json ''\"name\":\"'' 8 (sizeof_user_name api)
                  (u_name zero_UserRecord)) (\<lambda>nm.
      Val (zero_UserRecord\<lparr>u_login := login, u_password := password, u_group := grp,
             u_name := nm, u_enable := 1, u_enable_change_password := 1,
             u_leverage := 100\<rparr>)))))"

definition update_user_from_json :: "api \<Rightarrow> string \<Rightarrow> UserRecord \<Rightarrow> UserRecord res" where
  \<comment> \<open>the fields MT4_UpdateUser overwrites in the record it has fetched\<close>
  "update_user_from_json api json user =
     res_then (extract_string json ''\"name\":\"'' 8 (sizeof_user_name api) (u_name user))
       (\<lambda>nm.
     res_then (extract_string json ''\"email\":\"'' 9 (sizeof_user_email api) (u_email user))
       (\<lambda>em.
     res_then (extract_string json ''\"group\":\"'' 9 (sizeof_user_group api) (u_group user))
       (\<lambda>grp.
     Val (user\<lparr>u_name := nm, u_email := em, u_group := grp\<rparr>))))"

definition created_json :: "UserRecord \<Rightarrow> string" where
  "created_json user = ''{\"success\":true,\"login\":'' @ show_int (u_login user) @ ''}''"

definition MT4_CreateUser :: "env \<Rightarrow> string option \<Rightarrow> nat option \<Rightarrow> int \<Rightarrow> int prog" where
  "MT4_CreateUser env jsonData buffer bufferSize s =
     (if not_ready s then fail_with ''Not initialized'' MT4_ERROR_NOT_INITIALIZED s
      else case (jsonData, buffer) of
        (Some json, Some buf) \<Rightarrow>
          if bufferSize \<le> 0 then fail_with ''Invalid parameters'' MT4_ERROR_INVALID_PARAMETER s
          else and_then (SafeIsConnected env) (\<lambda>c.
            if \<not> c then fail_with ''Not connected'' MT4_ERROR_NOT_CONNECTED
            else try_catch
              (and_then (lift (new_user_from_json (consts_of env) json)) (\<lambda>user.
               and_then (invoke (M_UserRecordNew user) (m_UserRecordNew (mgr env) user))
                 (\<lambda>(result, user').
                  if result = RET_OK (consts_of env)
                  then (let resultStr = created_json user' in
                        if bufferSize \<le> int (length resultStr)
                        then fail_with ''Buffer too small'' MT4_ERROR_BUFFER_TOO_SMALL
                        else next_do (strcpy_s_buffer buf bufferSize resultStr) succeed)
                  else fail_described env result ''Failed to create user'' MT4_ERROR_INTERNAL)))
              (\<lambda>what. fail_with what MT4_ERROR_INTERNAL)
              (fail_with ''Unknown error creating user'' MT4_ERROR_INTERNAL)) s
      | _ \<Rightarrow> fail_with ''Invalid parameters'' MT4_ERROR_INVALID_PARAMETER s)"

definition MT4_UpdateUser :: "env \<Rightarrow> int \<Rightarrow> string option \<Rightarrow> int prog" where
  "MT4_UpdateUser env login jsonData s =
     (if not_ready s then fail_with ''Not initialized'' MT4_ERROR_NOT_INITIALIZED s
      else case jsonData of
        None \<Rightarrow> fail_with ''Invalid parameters'' MT4_ERROR_INVALID_PARAMETER s
      | Some json \<Rightarrow>
          and_then (SafeIsConnected env) (\<lambda>c.
            if \<not> c then fail_with ''Not connected'' MT4_ERROR_NOT_CONNECTED
            else try_catch
              (and_then (invoke (M_UserRecordGet login)
                           (m_UserRecordGet (mgr env) login zero_UserRecord)) (\<lambda>(result, user).
                 if result \<noteq> RET_OK (consts_of env)
                 then fail_with ''User not found'' MT4_ERROR_INTERNAL
                 else
                   and_then (lift (update_user_from_json (consts_of env) json user)) (\<lambda>user2.
                   and_then (invoke (M_UserRecordUpdate user2)
                               (m_UserRecordUpdate (mgr env) user2)) (\<lambda>(result, _).
                     if result = RET_OK (consts_of env) then succeed
                     else fail_described env result ''Failed to update user''
                            MT4_ERROR_INTERNAL))))
              (\<lambda>what. fail_with what MT4_ERROR_INTERNAL)
              (fail_with ''Unknown error updating user'' MT4_ERROR_INTERNAL)) s)"

definition MT4_DeleteUser :: "env \<Rightarrow> int \<Rightarrow> int prog" where
  "MT4_DeleteUser env login s =
     (if not_ready s then fail_with ''Not initialized'' MT4_ERROR_NOT_INITIALIZED s
      else and_then (SafeIsConnected env) (\<lambda>c.
        if \<not> c then fail_with ''Not connected'' MT4_ERROR_NOT_CONNECTED
        else try_catch
          (and_then (invoke (M_UserRecordGet login)
                       (m_UserRecordGet (mgr env) login zero_UserRecord)) (\<lambda>(result, user).
             if result \<noteq> RET_OK (consts_of env)
             then fail_with ''User not found'' MT4_ERROR_INTERNAL
             else
               let user2 = user\<lparr>u_enable := 0\<rparr>
               in and_then (invoke (M_UserRecordUpdate user2)
                              (m_UserRecordUpdate (mgr env) user2)) (\<lambda>(result, _).
                    if result = RET_OK (consts_of env) then succeed
                    else fail_described env result ''Failed to disable user''
                           MT4_ERROR_INTERNAL)))
          (\<lambda>what. fail_with what MT4_ERROR_INTERNAL)
          (fail_with ''Unknown error deleting user'' MT4_ERROR_INTERNAL)) s)"

section \<open>Quotes\<close>

definition emit_quote :: "nat \<Rightarrow> int \<Rightarrow> string \<Rightarrow> int prog" where
  \<comment> \<open>the end of the first two branches of MT4_GetQuote: the length check, the copy, success\<close>
  "emit_quote buf bufferSize result_str =
     (if bufferSize \<le> int (length result_str)
      then fail_with ''Buffer too small for quote data'' MT4_ERROR_BUFFER_TOO_SMALL
      else next_do (strcpy_s_buffer buf bufferSize result_str) succeed)"

definition quote_from_ticks :: "env \<Rightarrow> string \<Rightarrow> nat \<Rightarrow> int \<Rightarrow> int prog" where
  \<comment> \<open>MT4_GetQuote from \<open>TickInfoLast\<close> on: the last tick, or \<open>SymbolInfoGet\<close> when there
      is none\<close>
  "quote_from_ticks env symb buf bufferSize =
     and_then (invoke (M_TickInfoLast symb) (m_TickInfoLast (mgr env) symb)) (\<lambda>ticks.
       case ticks of
         Some (a, t # ts) \<Rightarrow>
           (let tick = last (t # ts) in
            and_then (invoke (M_SymbolInfoGet symb)
                        (m_SymbolInfoGet (mgr env) symb zero_SymbolInfo)) (\<lambda>(_, symbolInfo).
            let result_str = quote_json env symb (ti_bid tick) (ti_ask tick)
                               (double_to_int (d_mul (d_sub (ti_ask tick) (ti_bid tick))
                                                 (d_pow10 (si_digits symbolInfo))))
                               (si_digits symbolInfo) (ti_ctm tick)
            in if bufferSize \<le> int (length result_str)
               then fail_with ''Buffer too small for quote data'' MT4_ERROR_BUFFER_TOO_SMALL
               else next_do (strcpy_s_buffer buf bufferSize result_str)
                   (next_do (log_call (M_MemFree a)) succeed)))
       | _ \<Rightarrow>
           and_then (invoke (M_SymbolInfoGet symb)
                       (m_SymbolInfoGet (mgr env) symb zero_SymbolInfo)) (\<lambda>(result, symbolInfo).
             if result \<noteq> RET_OK (consts_of env)
             then fail_with ''No price data available for symbol'' MT4_ERROR_INTERNAL
             else and_then (invoke C_time (os_time (sys env))) (\<lambda>now.
                    emit_quote buf bufferSize
                      (quote_json env symb (si_bid symbolInfo) (si_ask symbolInfo)
                         (si_spread symbolInfo) (si_digits symbolInfo) now))))"

definition MT4_GetQuote :: "env \<Rightarrow> string option \<Rightarrow> nat option \<Rightarrow> int \<Rightarrow> int prog" where
  "MT4_GetQuote env symbol buffer bufferSize s =
     (if not_ready s then fail_with ''Not initialized'' MT4_ERROR_NOT_INITIALIZED s
      else and_then (SafeIsConnected env) (\<lambda>c.
        if \<not> c then fail_with ''Not connected to MT4 server'' MT4_ERROR_NOT_CONNECTED
        else case (symbol, buffer) of
          (Some symb, Some buf) \<Rightarrow>
            if bufferSize \<le> 0 then fail_with ''Invalid parameters'' MT4_ERROR_INVALID_PARAMETER
            else try_catch
              (and_then (invoke (M_SymbolInfoUpdated 128) (m_SymbolInfoUpdated (mgr env) 128))
                 (\<lambda>symbolsInfo.
               case find (\<lambda>si. si_symbol si = symb) symbolsInfo of
                 Some targetSymbol \<Rightarrow>
                   if 0 < si_bid targetSymbol \<or> 0 < si_ask targetSymbol
                   then emit_quote buf bufferSize
                          (quote_json env symb (si_bid targetSymbol) (si_ask targetSymbol)
                             (si_spread targetSymbol) (si_digits targetSymbol)
                             (si_lasttime targetSymbol))
                   else quote_from_ticks env symb buf bufferSize
               | None \<Rightarrow> quote_from_ticks env symb buf bufferSize))
              (\<lambda>what. fail_with what MT4_ERROR_INTERNAL)
              (fail_with ''Unknown error getting quote'' MT4_ERROR_INTERNAL)
        | _ \<Rightarrow> fail_with ''Invalid parameters'' MT4_ERROR_INVALID_PARAMETER) s)"

section \<open>The exported surface\<close>

text \<open>
  A host drives the wrapper through the functions MT4Wrapper.h exports, one call after
  another. \<open>request\<close> names a call with its arguments, \<open>answer\<close> is what it returns.
\<close>

datatype request =
    Initialize | Shutdown | Connect "string option" | Login int "string option"
  | Disconnect | IsConnected | GetLastError | Ping
  | GetUserInfo int "nat option" int | GetAllUsers "nat option" int
  | CreateUser "string option" "nat option" int | UpdateUser int "string option"
  | DeleteUser int
  | GetTrades int "nat option" int
  | OpenTrade int "string option" int double double double double "string option" "nat option" int
  | CloseTrade int double double
  | GetSymbols "nat option" int | GetQuote "string option" "nat option" int

datatype answer = Status int | Text string | Nothing

definition returning :: "('a \<Rightarrow> answer) \<Rightarrow> 'a prog \<Rightarrow> answer prog" where
  "returning f m = and_then m (\<lambda>v. ret (f v))"

fun call_api :: "env \<Rightarrow> request \<Rightarrow> answer prog" where
  "call_api env Initialize = returning Status (MT4_Initialize env)"
| "call_api env Shutdown = returning (\<lambda>_. Nothing) (MT4_Shutdown env)"
| "call_api env (Connect server) = returning Status (MT4_Connect env server)"
| "call_api env (Login login password) = returning Status (MT4_Login env login password)"
| "call_api env Disconnect = returning Status (MT4_Disconnect env)"
| "call_api env IsConnected = returning Status (MT4_IsConnected env)"
| "call_api env GetLastError = returning Text MT4_GetLastError"
| "call_api env Ping = returning Status (MT4_Ping env)"
| "call_api env (GetUserInfo login buffer bufferSize) =
     returning Status (MT4_GetUserInfo env login buffer bufferSize)"
| "call_api env (GetAllUsers buffer bufferSize) =
     returning Status (MT4_GetAllUsers env buffer bufferSize)"
| "call_api env (CreateUser jsonData buffer bufferSize) =
     returning Status (MT4_CreateUser env jsonData buffer bufferSize)"
| "call_api env (UpdateUser login jsonData) = returning Status (MT4_UpdateUser env login jsonData)"
| "call_api env (DeleteUser login) = returning Status (MT4_DeleteUser env login)"
| "call_api env (GetTrades login buffer bufferSize) =
     returning Status (MT4_GetTrades env login buffer bufferSize)"
| "call_api env (OpenTrade login symbol cmd volume price stoploss takeprofit comment buffer bufferSize) =
     returning Status (MT4_OpenTrade env login symbol cmd volume price stoploss takeprofit
                         comment buffer bufferSize)"
| "call_api env (CloseTrade order lots price) = returning Status (MT4_CloseTrade env order lots price)"
| "call_api env (GetSymbols buffer bufferSize) =
     returning Status (MT4_GetSymbols env buffer bufferSize)"
| "call_api env (GetQuote symbol buffer bufferSize) =
     returning Status (MT4_GetQuote env symbol buffer bufferSize)"

definition startup :: "(nat \<Rightarrow> char list) \<Rightarrow> session" where
  \<comment> \<open>the globals as the program starts, over the caller's memory \<open>h\<close>\<close>
  "startup h = \<lparr>g_pManager = False, g_pFactory = False, g_lastError = [],
     g_initialized = False, g_bypassMode = False, g_mockConnected = False,
     trace = [], heap = h\<rparr>"

section \<open>Calls before initialization and after shutdown\<close>

text \<open>
  \<open>gated\<close> holds of connect, login, ping and the record operations. \<open>session_live\<close>
  follows what the host has seen: the session is live from an initialize that returned
  success to the next shutdown. \<open>refuses_while_down\<close> runs a sequence of calls and
  holds when every gated call made while the session is not live returns
  \<open>MT4_ERROR_NOT_INITIALIZED\<close> and adds no call to the log. A call that does not return
  ends the run.
\<close>

definition gated :: "request \<Rightarrow> bool" where
  "gated r = (case r of
      Initialize \<Rightarrow> False | Shutdown \<Rightarrow> False | Disconnect \<Rightarrow> False
    | IsConnected \<Rightarrow> False | GetLastError \<Rightarrow> False | _ \<Rightarrow> True)"

fun session_live :: "bool \<Rightarrow> request \<Rightarrow> answer \<Rightarrow> bool" where
  "session_live live Initialize (Status c) = (if c = MT4_SUCCESS then True else live)"
| "session_live live Shutdown a = False"
| "session_live live r a = live"

fun refuses_while_down :: "env \<Rightarrow> bool \<Rightarrow> session \<Rightarrow> request list \<Rightarrow> bool" where
  "refuses_while_down env live s [] = True"
| "refuses_while_down env live s (r # rs) =
     (case call_api env r s of
        (Val a, s') \<Rightarrow>
          (if gated r \<and> \<not> live
           then a = Status MT4_ERROR_NOT_INITIALIZED \<and> trace s' = trace s
           else True)
          \<and> refuses_while_down env (session_live live r a) s' rs
      | (_, s') \<Rightarrow> \<not> (gated r \<and> \<not> live))"

section \<open>A sample environment\<close>

text \<open>
  A manager that is connected and accepts what it is sent, on a platform where every
  call succeeds; the examples below vary it one answer at a time.
\<close>

definition demo_api :: api where
  "demo_api = \<lparr>RET_OK = 0, TT_ORDER_CLOSE_BY = 72, OP_BUY = 0, ManAPIVersion = 1,
     sizeof_user_group = 16, sizeof_user_password = 16, sizeof_user_name = 128,
     sizeof_user_email = 48, sizeof_trans_symbol = 12, sizeof_trans_comment = 32\<rparr>"

definition demo_tick :: TickInfo where
  "demo_tick = \<lparr>ti_ctm = 1000, ti_bid = 1, ti_ask = 2\<rparr>"

definition demo_manager :: manager where
  "demo_manager = \<lparr>
     m_Release = (\<lambda>h. Val ()),
     m_IsConnected = (\<lambda>h. Val 1),
     m_WorkingDirectory = (\<lambda>path h. Val ()),
     m_Connect = (\<lambda>server h. Val 0),
     m_ErrorDescription = (\<lambda>code h. Val None),
     m_Login = (\<lambda>login password h. Val 0),
     m_Disconnect = (\<lambda>h. Val 0),
     m_Ping = (\<lambda>h. Val 0),
     m_UserRecordsRequest = (\<lambda>logins h. Val None),
     m_UsersRequest = (\<lambda>h. Val None),
     m_UserRecordNew = (\<lambda>user h. Val (0, user)),
     m_UserRecordGet = (\<lambda>login user h. Val (1, user)),
     m_UserRecordUpdate = (\<lambda>user h. Val (0, user)),
     m_TradesUserHistory = (\<lambda>login from to h. Val None),
     m_TradesRequest = (\<lambda>h. Val None),
     m_TradeRecordGet = (\<lambda>order trade h. Val (1, trade)),
     m_TradeTransaction = (\<lambda>trade h. Val (0, trade\<lparr>tt_order := 7\<rparr>)),
     m_SymbolsRefresh = (\<lambda>h. Val 0),
     m_SymbolsGetAll = (\<lambda>h. Val None),
     m_SymbolInfoUpdated = (\<lambda>n h. Val []),
     m_SymbolInfoGet = (\<lambda>symbol info h. Val (0, info\<lparr>si_symbol := symbol, si_digits := 5\<rparr>)),
     m_TickInfoLast = (\<lambda>symbol h. Val (Some (4096, [demo_tick])))\<rparr>"

definition demo_platform :: platform where
  "demo_platform = \<lparr>
     os_WSAStartup = (\<lambda>h. Val 0),
     os_GetCurrentDirectory = (\<lambda>h. Val (6, ''C:/mt4'')),
     os_time = (\<lambda>h. Val 1000),
     f_new = (\<lambda>h. Val ()),
     f_IsValid = (\<lambda>h. Val True),
     f_WinsockStartup = (\<lambda>h. Val 0),
     f_WinsockCleanup = (\<lambda>h. Val ()),
     f_Create = (\<lambda>version h. Val True),
     fmt_double = (\<lambda>d. show_int \<lfloor>d\<rfloor>)\<rparr>"

definition demo_env :: env where
  "demo_env = \<lparr>consts_of = demo_api, mgr = demo_manager, sys = demo_platform\<rparr>"

definition demo_heap :: "nat \<Rightarrow> char list" where
  \<comment> \<open>every buffer of the caller holds 64 dots\<close>
  "demo_heap a = ''................................................................''"

definition ready_session :: session where
  \<comment> \<open>the session after a successful initialize on \<open>demo_env\<close>\<close>
  "ready_session = \<lparr>g_pManager = True, g_pFactory = True, g_lastError = [],
     g_initialized = True, g_bypassMode = False, g_mockConnected = False,
     trace = [C_WSAStartup, F_new, F_IsValid, F_WinsockStartup, F_Create 1],
     heap = demo_heap\<rparr>"

text \<open>Variations: a manager that is not connected, one whose disconnect fails, and one
  that knows a user.\<close>

definition offline_env :: env where
  "offline_env = demo_env\<lparr>mgr := demo_manager\<lparr>m_IsConnected := (\<lambda>h. Val 0)\<rparr>\<rparr>"


definition demo_user :: UserRecord where
  "demo_user = \<lparr>u_login = 4242, u_group = ''demo'', u_password = [], u_enable = 1,
     u_enable_change_password = 1, u_name = ''Ann'', u_email = ''ann@example.org'',
     u_leverage = 100, u_balance = 2500, u_credit = 0\<rparr>"

definition users_env :: env where
  "users_env = demo_env\<lparr>mgr := demo_manager\<lparr>
     m_UserRecordsRequest := (\<lambda>logins h. Val (Some (8192, [demo_user])))\<rparr>\<rparr>"



definition requested_user :: UserRecord where
  \<comment> \<open>the record MT4_CreateUser builds from \<open>"login":4242,"password":"x","group":"g"\<close>\<close>
  "requested_user = \<lparr>u_login = 4242, u_group = ''g'', u_password = ''x'', u_enable = 1,
     u_enable_change_password = 1, u_name = [], u_email = [], u_leverage = 100,
     u_balance = 0, u_credit = 0\<rparr>"

section \<open>Predicates of the claims\<close>

definition refuses_unwritten :: "int prog \<Rightarrow> session \<Rightarrow> bool" where
  \<comment> \<open>the call returns \<open>MT4_ERROR_BUFFER_TOO_SMALL\<close> and the caller's memory is as it was\<close>
  "refuses_unwritten m s =
     (case m s of (out, s') \<Rightarrow> out = Val MT4_ERROR_BUFFER_TOO_SMALL \<and> heap s' = heap s)"

definition stale_quote :: "SymbolInfo list \<Rightarrow> string \<Rightarrow> bool" where
  \<comment> \<open>the updated symbols hold no entry for the symbol, or one without a positive price\<close>
  "stale_quote infos symb =
     (case find (\<lambda>si. si_symbol si = symb) infos of
        Some t \<Rightarrow> \<not> (0 < si_bid t \<or> 0 < si_ask t)
      | None \<Rightarrow> True)"






section \<open>Unfolding rules\<close>

lemmas return_codes =
  MT4_SUCCESS_def MT4_ERROR_NOT_INITIALIZED_def MT4_ERROR_ALREADY_INITIALIZED_def
  MT4_ERROR_CONNECTION_FAILED_def MT4_ERROR_LOGIN_FAILED_def MT4_ERROR_NOT_CONNECTED_def
  MT4_ERROR_INVALID_PARAMETER_def MT4_ERROR_BUFFER_TOO_SMALL_def MT4_ERROR_INTERNAL_def

lemmas prog_defs =
  ret_def and_then_def next_do_def try_catch_def try_catch_all_def invoke_def SetError_def
  fail_with_def succeed_def modify_def log_call_def returning_def lift_def res_then_def

lemmas demo_defs =
  demo_env_def demo_api_def demo_manager_def demo_platform_def demo_heap_def
  ready_session_def demo_tick_def

lemmas op_defs =
  SafeIsConnected_def not_ready_def strcpy_s_buffer_def fail_described_def prog_defs

lemma initialize_demo:
  "MT4_Initialize demo_env (startup demo_heap) = (Val MT4_SUCCESS, ready_session)"
  by (simp add: MT4_Initialize_def prog_defs demo_defs startup_def)

section \<open>The guard on an uninitialized session\<close>

lemma gated_refused:
  assumes "\<not> g_initialized s" and "gated r"
  shows "call_api env r s =
           (Val (Status MT4_ERROR_NOT_INITIALIZED), s\<lparr>g_lastError := ''Not initialized''\<rparr>)"
  using assms
  by (cases r)
     (simp_all add: gated_def not_ready_def prog_defs MT4_Connect_def MT4_Login_def MT4_Ping_def
        MT4_GetUserInfo_def MT4_GetAllUsers_def MT4_CreateUser_def MT4_UpdateUser_def
        MT4_DeleteUser_def MT4_GetTrades_def MT4_OpenTrade_def MT4_CloseTrade_def
        MT4_GetSymbols_def MT4_GetQuote_def)

lemma Initialize_flag:
  assumes "MT4_Initialize env s = (Val c, s')" and "c \<noteq> MT4_SUCCESS"
  shows "g_initialized s' = g_initialized s"
  using assms
  by (auto simp: MT4_Initialize_def prog_defs rollback_factory_def rollback_on_exception_def
        return_codes split: if_splits res.splits exn.splits prod.splits)

lemma Shutdown_flag:
  assumes "MT4_Shutdown env s = (Val u, s')"
  shows "\<not> g_initialized s'"
  using assms
  by (auto simp: MT4_Shutdown_def prog_defs split: if_splits res.splits exn.splits prod.splits)

lemma ungated_flag:
  assumes "\<not> g_initialized s" and "call_api env r s = (Val a, s')"
    and "r = Disconnect \<or> r = IsConnected \<or> r = GetLastError"
  shows "\<not> g_initialized s'"
  using assms
  by (auto simp: MT4_Disconnect_def MT4_IsConnected_def MT4_GetLastError_def SafeIsConnected_def
        not_ready_def prog_defs)

lemma down_stays_down:
  assumes "call_api env r s = (Val a, s')" and "\<not> session_live live r a"
    and "\<not> live \<Longrightarrow> \<not> g_initialized s"
  shows "\<not> g_initialized s'"
proof (cases "r = Initialize \<or> r = Shutdown")
  case True
  then show ?thesis
  proof
    assume r: "r = Initialize"
    from assms(1) r obtain c where c: "MT4_Initialize env s = (Val c, s')" and a: "a = Status c"
      by (auto simp: returning_def and_then_def ret_def split: res.splits prod.splits)
    from assms(2) r a have "c \<noteq> MT4_SUCCESS" and "\<not> live"
      by (auto split: if_splits)
    with c assms(3) show ?thesis
      by (simp add: Initialize_flag)
  next
    assume r: "r = Shutdown"
    from assms(1) r obtain u where "MT4_Shutdown env s = (Val u, s')"
      by (auto simp: returning_def and_then_def ret_def split: res.splits prod.splits)
    then show ?thesis
      by (rule Shutdown_flag)
  qed
next
  case False
  with assms(2) have "\<not> live"
    by (cases r) simp_all
  with assms(3) have down: "\<not> g_initialized s"
    by simp
  show ?thesis
  proof (cases "gated r")
    case True
    with down assms(1) show ?thesis
      by (auto simp: gated_refused)
  next
    case False
    with \<open>\<not> (r = Initialize \<or> r = Shutdown)\<close>
    have "r = Disconnect \<or> r = IsConnected \<or> r = GetLastError"
      by (cases r) (simp_all add: gated_def)
    with down assms(1) show ?thesis
      by (rule ungated_flag)
  qed
qed

lemma refuses_while_down_invariant:
  assumes "\<not> live \<Longrightarrow> \<not> g_initialized s"
  shows "refuses_while_down env live s rs"
  using assms
proof (induction rs arbitrary: live s)
  case Nil
  show ?case by simp
next
  case (Cons r rs)
  obtain out s' where run: "call_api env r s = (out, s')"
    by (cases "call_api env r s")
  have returns: "\<exists>a. out = Val a" if "gated r \<and> \<not> live"
    using that run Cons.prems by (auto simp: gated_refused)
  show ?case
  proof (cases out)
    case (Val a)
    have step: "gated r \<and> \<not> live \<Longrightarrow>
                  a = Status MT4_ERROR_NOT_INITIALIZED \<and> trace s' = trace s"
      using run Val Cons.prems by (auto simp: gated_refused)
    have "refuses_while_down env (session_live live r a) s' rs"
    proof (rule Cons.IH)
      assume "\<not> session_live live r a"
      with run Val Cons.prems show "\<not> g_initialized s'"
        using down_stays_down [of env r s a s' live] by blast
    qed
    with step run Val show ?thesis by simp
  next
    case (Throw e)
    with run returns show ?thesis by auto
  next
    case InvalidParameterHandler
    with run returns show ?thesis by auto
  qed
qed

text \<open>
  Claim C1. In every sequence of calls made from program start, each call of connect,
  login, ping or a record operation (get user, list users, list trades, open trade, close
  trade, create user, update user, delete user, list symbols, get quote) that comes
  before an initialize has returned success, or after a shutdown with no successful
  initialize since, returns \<open>MT4_ERROR_NOT_INITIALIZED\<close> and makes no call to the
  remote capability: the log of calls is as it was. One such call, in any session whose
  initialized flag is down, changes nothing but the last-error text; and a shutdown that
  returns leaves the flag down.
\<close>

theorem not_initialized_refused:
  "refuses_while_down env False (startup h) rs
   \<and> (\<not> g_initialized s \<and> gated r \<longrightarrow>
        call_api env r s =
          (Val (Status MT4_ERROR_NOT_INITIALIZED), s\<lparr>g_lastError := ''Not initialized''\<rparr>))
   \<and> (call_api env Shutdown s = (Val a, s') \<longrightarrow> \<not> g_initialized s')"
proof (intro conjI impI)
  show "refuses_while_down env False (startup h) rs"
    by (rule refuses_while_down_invariant) (simp add: startup_def)
next
  assume "\<not> g_initialized s \<and> gated r"
  then show "call_api env r s =
          (Val (Status MT4_ERROR_NOT_INITIALIZED), s\<lparr>g_lastError := ''Not initialized''\<rparr>)"
    by (simp add: gated_refused)
next
  assume "call_api env Shutdown s = (Val a, s')"
  then obtain u where "MT4_Shutdown env s = (Val u, s')"
    by (auto simp: returning_def and_then_def ret_def split: res.splits prod.splits)
  then show "\<not> g_initialized s'"
    by (rule Shutdown_flag)
qed

theorem not_initialized_refused_witness:
  "refuses_while_down demo_env False (startup demo_heap)
     [Ping, Connect (Some ''10.0.0.1:443''), Initialize, Ping, Shutdown,
      GetQuote (Some ''EURUSD'') (Some 0) 64, DeleteUser 4242]
   \<and> call_api demo_env Ping (startup demo_heap) =
       (Val (Status MT4_ERROR_NOT_INITIALIZED),
        (startup demo_heap)\<lparr>g_lastError := ''Not initialized''\<rparr>)"
proof -
  note run = not_initialized_refused [of demo_env demo_heap
      "[Ping, Connect (Some ''10.0.0.1:443''), Initialize, Ping, Shutdown,
        GetQuote (Some ''EURUSD'') (Some 0) 64, DeleteUser 4242]" "startup demo_heap" Ping]
  have down: "\<not> g_initialized (startup demo_heap) \<and> gated Ping"
    by (simp add: startup_def gated_def)
  from run [THEN conjunct1] run [THEN conjunct2, THEN conjunct1, THEN mp, OF down]
  show ?thesis by (rule conjI)
qed

section \<open>Lot volumes\<close>











section \<open>The login argument of open trade\<close>

text \<open>
  Claim C10. Two calls of open trade that agree on every argument but \<open>login\<close>, made in
  the same session against the same remote capability, send the same transaction
  request, return the same status, leave the same buffer contents and the same last-error
  text: the whole outcome (result and session, with its call log and the caller's
  memory) is the same.
\<close>

theorem open_trade_ignores_login:
  "MT4_OpenTrade env login1 symbol cmd volume price stoploss takeprofit comment buffer bufferSize s
   = MT4_OpenTrade env login2 symbol cmd volume price stoploss takeprofit comment buffer bufferSize s"
  by (simp add: MT4_OpenTrade_def)

section \<open>Connect and its server argument\<close>

text \<open>
  Claim C6, as the code has it. On an initialized session, connect called with a null
  server address returns \<open>MT4_ERROR_INVALID_PARAMETER\<close> and makes no call at all, so no
  connect attempt; on a session that is not initialized, connect returns
  \<open>MT4_ERROR_NOT_INITIALIZED\<close> whatever the address. An empty address that is not null
  is handed to the remote connect, as the evaluation after the theorem shows.
\<close>

theorem connect_null_address:
  "(g_initialized s \<and> g_pManager s \<longrightarrow>
      MT4_Connect env None s =
        (Val MT4_ERROR_INVALID_PARAMETER, s\<lparr>g_lastError := ''Invalid server parameter''\<rparr>))
   \<and> (\<not> g_initialized s \<longrightarrow>
      MT4_Connect env server s =
        (Val MT4_ERROR_NOT_INITIALIZED, s\<lparr>g_lastError := ''Not initialized''\<rparr>))"
  by (simp add: MT4_Connect_def not_ready_def prog_defs)

theorem connect_null_address_witness:
  "MT4_Connect demo_env None ready_session =
     (Val MT4_ERROR_INVALID_PARAMETER,
      ready_session\<lparr>g_lastError := ''Invalid server parameter''\<rparr>)
   \<and> MT4_Connect demo_env (Some []) (startup demo_heap) =
     (Val MT4_ERROR_NOT_INITIALIZED, (startup demo_heap)\<lparr>g_lastError := ''Not initialized''\<rparr>)"
  using connect_null_address [of ready_session demo_env]
    connect_null_address [of "startup demo_heap" demo_env "Some []"]
  by (simp add: ready_session_def startup_def)

theorem connect_empty_address:
  "MT4_Connect demo_env (Some []) ready_session =
     (Val MT4_SUCCESS,
      ready_session\<lparr>trace := trace ready_session @
         [C_GetCurrentDirectory, M_WorkingDirectory ''C:/mt4'', C_Sleep 100, M_Connect []],
         g_lastError := []\<rparr>)
   \<and> MT4_SUCCESS \<noteq> MT4_ERROR_INVALID_PARAMETER"
  by (simp add: MT4_Connect_def not_ready_def prog_defs demo_defs return_codes)

section \<open>Closing an order that does not exist\<close>

text \<open>
  Claim C7. On an initialized session whose connection check answers connected, close
  order for an order id whose remote lookup does not return \<open>RET_OK\<close> returns
  \<open>MT4_ERROR_INTERNAL\<close> with the last-error text "Trade not found", and the only calls
  made are the connection check and the lookup: no trade transaction.
\<close>

theorem close_missing_order:
  assumes "g_initialized s" and "g_pManager s"
    and "m_IsConnected (mgr env) (trace s) = Val c" and "c \<noteq> 0"
    and "m_TradeRecordGet (mgr env) order zero_TradeRecord (trace s @ [M_IsConnected])
           = Val (result, trade)"
    and "result \<noteq> RET_OK (consts_of env)"
  shows "MT4_CloseTrade env order lots price s =
           (Val MT4_ERROR_INTERNAL,
            s\<lparr>trace := trace s @ [M_IsConnected, M_TradeRecordGet order],
              g_lastError := ''Trade not found''\<rparr>)"
  using assms
  by (simp add: MT4_CloseTrade_def SafeIsConnected_def not_ready_def prog_defs)

theorem close_missing_order_witness:
  "MT4_CloseTrade demo_env 77 0 0 ready_session =
     (Val MT4_ERROR_INTERNAL,
      ready_session\<lparr>trace := trace ready_session @ [M_IsConnected, M_TradeRecordGet 77],
        g_lastError := ''Trade not found''\<rparr>)"
  using close_missing_order [of ready_session demo_env 1 77 1 zero_TradeRecord 0 0]
  by (simp add: demo_defs)

section \<open>Parameter checks and the connection check\<close>

text \<open>
  Claim C5, at the input where the code departs from it. On an initialized session
  whose manager answers not connected, get quote with a null symbol asks the manager
  whether it is connected and returns \<open>MT4_ERROR_NOT_CONNECTED\<close>; open trade with a null
  symbol, in the same session, returns \<open>MT4_ERROR_INVALID_PARAMETER\<close> and calls nothing.
\<close>

theorem get_quote_checks_connection_first:
  "MT4_GetQuote offline_env None (Some 0) 64 ready_session =
     (Val MT4_ERROR_NOT_CONNECTED,
      ready_session\<lparr>trace := trace ready_session @ [M_IsConnected],
        g_lastError := ''Not connected to MT4 server''\<rparr>)
   \<and> MT4_OpenTrade offline_env 4242 None 0 1 1 0 0 None (Some 0) 64 ready_session =
     (Val MT4_ERROR_INVALID_PARAMETER,
      ready_session\<lparr>g_lastError := ''Invalid parameters''\<rparr>)"
  by (simp add: MT4_GetQuote_def MT4_OpenTrade_def SafeIsConnected_def not_ready_def
        prog_defs demo_defs offline_env_def)

section \<open>Release of remote-owned memory\<close>

text \<open>
  Claim C3, at the input where the code departs from it. Get quote receives the block
  of ticks at address 4096 and, its buffer being too small, returns
  \<open>MT4_ERROR_BUFFER_TOO_SMALL\<close> with no \<open>MemFree\<close> among its calls; get user, on the same
  path, frees its block (at 8192) before it returns.
\<close>

theorem get_quote_keeps_ticks_on_small_buffer:
  "MT4_GetQuote demo_env (Some ''EURUSD'') (Some 0) 8 ready_session =
     (Val MT4_ERROR_BUFFER_TOO_SMALL,
      ready_session\<lparr>trace := trace ready_session @
         [M_IsConnected, M_SymbolInfoUpdated 128, M_TickInfoLast ''EURUSD'',
          M_SymbolInfoGet ''EURUSD''],
        g_lastError := ''Buffer too small for quote data''\<rparr>)
   \<and> m_TickInfoLast (mgr demo_env) ''EURUSD''
         (trace ready_session @ [M_IsConnected, M_SymbolInfoUpdated 128])
       = Val (Some (4096, [demo_tick]))
   \<and> MT4_GetUserInfo users_env 4242 (Some 0) 8 ready_session =
     (Val MT4_ERROR_BUFFER_TOO_SMALL,
      ready_session\<lparr>trace := trace ready_session @
         [M_UserRecordsRequest [4242], M_MemFree 8192],
        g_lastError := ''Buffer too small''\<rparr>)"
  by (simp add: MT4_GetQuote_def MT4_GetUserInfo_def quote_from_ticks_def SafeIsConnected_def
        not_ready_def prog_defs demo_defs users_env_def demo_user_def quote_json_def
        user_info_json_def)

section \<open>Creating an account from loosely structured text\<close>

lemma find_first_Some:
  "find_first needle hay = Some i \<Longrightarrow> \<exists>rest. drop i hay = needle @ rest"
proof (induction hay arbitrary: i)
  case Nil
  then show ?case by (simp split: if_splits)
next
  case (Cons c cs)
  show ?case
  proof (cases "prefix needle (c # cs)")
    case True
    with Cons.prems have "i = 0" by simp
    with True show ?thesis by (auto simp: prefix_def)
  next
    case False
    with Cons.prems obtain j where j: "find_first needle cs = Some j" and i: "i = Suc j"
      by auto
    from Cons.IH [OF j] i show ?thesis by simp
  qed
qed

lemma str_find_Some:
  assumes "str_find hay needle 0 = Some p"
  shows "\<exists>rest. drop p hay = needle @ rest"
  using assms by (auto simp: str_find_def dest: find_first_Some)

lemma drop_after:
  assumes "drop p json = front @ rest"
  shows "drop (p + k) json = drop k (front @ rest)"
  using assms by (metis add.commute drop_drop)

lemma length_after:
  assumes "drop p json = front @ rest" and "front \<noteq> []"
  shows "p + length front \<le> length json"
proof -
  have "length json - p = length front + length rest"
    using assms(1) by (metis length_append length_drop)
  moreover have "0 < length front"
    using assms(2) by simp
  ultimately show ?thesis by linarith
qed

lemma new_user_example:
  assumes contains: "str_find json ''\"login\":4242,\"password\":\"x\",\"group\":\"g\"'' 0 = Some p"
    and first_login: "str_find json ''\"login\":'' 0 = Some p"
    and first_password: "str_find json ''\"password\":\"'' 0 = Some (p + 13)"
    and first_group: "str_find json ''\"group\":\"'' 0 = Some (p + 28)"
    and no_name: "str_find json ''\"name\":\"'' 0 = None"
    and widths: "1 < sizeof_user_password api" "1 < sizeof_user_group api"
  shows "new_user_from_json api json = Val requested_user"
proof -
  from str_find_Some [OF contains] obtain rest
    where at: "drop p json = ''\"login\":4242,\"password\":\"x\",\"group\":\"g\"'' @ rest"
    by blast
  have len: "p + 39 \<le> length json"
    using length_after [OF at] by simp
  have login: "extract_login json (u_login zero_UserRecord) = 4242"
    using first_login drop_after [OF at, of 8]
    by (simp add: extract_login_def atoi_def is_space_def is_digit_def digit_val_def INT_MAX_def)
  have d25: "drop (p + 25) json = ''x\",\"group\":\"g\"'' @ rest"
    using drop_after [OF at, of 25] by simp
  have d37: "drop (p + 37) json = ''g\"'' @ rest"
    using drop_after [OF at, of 37] by simp
  have password: "extract_string json ''\"password\":\"'' 12 (sizeof_user_password api)
                    (u_password zero_UserRecord) = Val ''x''"
    using first_password len d25 widths
    by (simp add: extract_string_def str_find_def substr_def strcpy_s_def add.assoc)
  have grp: "extract_string json ''\"group\":\"'' 9 (sizeof_user_group api)
                    (u_group zero_UserRecord) = Val ''g''"
    using first_group len d37 widths
    by (simp add: extract_string_def str_find_def substr_def strcpy_s_def add.assoc)
  have nm: "extract_string json ''\"name\":\"'' 8 (sizeof_user_name api)
                    (u_name zero_UserRecord) = Val (u_name zero_UserRecord)"
    using no_name by (simp add: extract_string_def)
  show ?thesis
    unfolding new_user_from_json_def login password grp nm
    by (simp add: res_then_def zero_UserRecord_def requested_user_def)
qed

lemma new_user_name_default:
  assumes "str_find json ''\"name\":\"'' 0 = None" and "new_user_from_json api json = Val u"
  shows "u_name u = u_name zero_UserRecord"
  using assms
  by (auto simp: new_user_from_json_def extract_string_def res_then_def Let_def
        split: res.splits)

lemma create_user_sends_default_name:
  assumes "str_find json ''\"name\":\"'' 0 = None"
    and "MT4_CreateUser env (Some json) buffer bufferSize s = (out, s')"
    and "M_UserRecordNew sent \<in> set (drop (length (trace s)) (trace s'))"
  shows "u_name sent = u_name zero_UserRecord"
  using assms
  by (auto simp: MT4_CreateUser_def op_defs Let_def new_user_name_default
        split: if_splits option.splits res.splits exn.splits prod.splits)

lemma extract_login_example:
  assumes contains: "str_find json ''\"login\":4242,\"password\":\"x\",\"group\":\"g\"'' 0 = Some p"
    and first_login: "str_find json ''\"login\":'' 0 = Some p"
  shows "extract_login json current = 4242"
proof -
  from str_find_Some [OF contains] obtain rest
    where at: "drop p json = ''\"login\":4242,\"password\":\"x\",\"group\":\"g\"'' @ rest"
    by blast
  show ?thesis
    using first_login drop_after [OF at, of 8]
    by (simp add: extract_login_def atoi_def is_space_def is_digit_def digit_val_def INT_MAX_def)
qed

lemma new_user_login:
  assumes "new_user_from_json api json = Val user"
  shows "u_login user = extract_login json (u_login zero_UserRecord)"
  using assms
  by (auto simp: new_user_from_json_def res_then_def Let_def split: res.splits)

lemma create_user_stored:
  assumes ready: "g_initialized s" "g_pManager s"
    and connected: "m_IsConnected (mgr env) (trace s) = Val c" "c \<noteq> 0"
    and parsed: "new_user_from_json (consts_of env) json = Val user"
    and accepted: "m_UserRecordNew (mgr env) user (trace s @ [M_IsConnected])
                     = Val (RET_OK (consts_of env), user')"
    and login: "u_login user' = 4242"
    and large: "29 < room"
  shows "MT4_CreateUser env (Some json) (Some buf) room s =
           (Val MT4_SUCCESS,
            s\<lparr>trace := trace s @ [M_IsConnected, M_UserRecordNew user],
              heap := store_string buf ''{\"success\":true,\"login\":4242}'' (heap s),
              g_lastError := []\<rparr>)"
  using assms
  by (simp add: MT4_CreateUser_def op_defs created_json_def show_int_def show_nat.simps
        digit_char_def)

lemma stored_answer:
  "store_string buf ''{\"success\":true,\"login\":4242}'' h =
     h(buf := ''{\"success\":true,\"login\":4242}'' @ [CHR 0x00] @ drop 30 (h buf))"
  by (simp add: store_string_def eval_nat_numeral)

lemma create_user_success:
  assumes ready: "g_initialized s" "g_pManager s"
    and connected: "m_IsConnected (mgr env) (trace s) = Val c" "c \<noteq> 0"
    and parsed: "new_user_from_json (consts_of env) json = Val user"
    and accepted: "m_UserRecordNew (mgr env) user (trace s @ [M_IsConnected])
                     = Val (RET_OK (consts_of env), user')"
    and login: "u_login user' = 4242"
    and large: "29 < room"
  shows "MT4_CreateUser env (Some json) (Some buf) room s =
           (Val MT4_SUCCESS,
            s\<lparr>trace := trace s @ [M_IsConnected, M_UserRecordNew user],
              heap := (heap s)(buf := ''{\"success\":true,\"login\":4242}'' @ [CHR 0x00]
                                        @ drop 30 (heap s buf)),
              g_lastError := []\<rparr>)"
  using create_user_stored [OF assms] by (simp only: stored_answer)

lemma earlier_login_parsed:
  "new_user_from_json demo_api
     ''{\"login\":7,\"x\":{\"login\":4242,\"password\":\"x\",\"group\":\"g\"}}''
   = Val (requested_user\<lparr>u_login := 7\<rparr>)"
  by (simp add: str_find_def new_user_from_json_def res_then_def extract_login_def
        extract_string_def substr_def strcpy_s_def atoi_def is_space_def is_digit_def
        digit_val_def INT_MAX_def zero_UserRecord_def requested_user_def demo_api_def)

lemma earlier_login_run:
  assumes "new_user_from_json demo_api json = Val (requested_user\<lparr>u_login := 7\<rparr>)"
  shows "MT4_CreateUser demo_env (Some json) (Some 0) 64 ready_session =
       (Val MT4_SUCCESS,
        ready_session\<lparr>trace := trace ready_session @
            [M_IsConnected, M_UserRecordNew (requested_user\<lparr>u_login := 7\<rparr>)],
          heap := demo_heap(0 := ''{\"success\":true,\"login\":7}'' @ [CHR 0x00]
                                 @ ''.....................................''),
          g_lastError := []\<rparr>)"
  using assms
  by (simp add: MT4_CreateUser_def op_defs demo_defs created_json_def show_int_def
        show_nat.simps digit_char_def store_string_def requested_user_def)

text \<open>
  Claim C9, as the code has it. For create account: when the input text has no
  \<open>"name":"\<close> marker, the extraction leaves the name field as it is and raises nothing,
  and every record the call sends to the remote create has the default (empty) name. When
  the input contains \<open>"login":4242,"password":"x","group":"g"\<close> and the \<open>"login":\<close> of
  that fragment is the first in the text, the values the text gives for password, group
  and name fit their fields (the record is built), the session is initialized and
  connected, the buffer has room for the 30 bytes of the answer, and the remote create
  accepts the record and leaves its login as sent, then the login sent is 4242, the call
  returns success, the buffer holds \<open>{"success":true,"login":4242}\<close> with its terminator
  and the last-error text is empty. When moreover the fragment's password and group keys
  are the first of their kind and there is no name marker, the record sent is
  \<open>requested_user\<close>. An earlier \<open>"login":\<close> marker decides the login instead, as the
  evaluation after the theorem shows.
\<close>

theorem create_account_fields:
  "(str_find json ''\"name\":\"'' 0 = None
      \<longrightarrow> extract_string json ''\"name\":\"'' 8 sz current = Val current)
   \<and> (str_find json ''\"name\":\"'' 0 = None
       \<and> MT4_CreateUser env (Some json) buffer bufferSize s = (out, s')
       \<and> M_UserRecordNew sent \<in> set (drop (length (trace s)) (trace s'))
      \<longrightarrow> u_name sent = u_name zero_UserRecord)
   \<and> (g_initialized s \<and> g_pManager s
       \<and> m_IsConnected (mgr env) (trace s) = Val c \<and> c \<noteq> 0
       \<and> str_find json ''\"login\":4242,\"password\":\"x\",\"group\":\"g\"'' 0 = Some p
       \<and> str_find json ''\"login\":'' 0 = Some p
       \<and> new_user_from_json (consts_of env) json = Val user
       \<and> m_UserRecordNew (mgr env) user (trace s @ [M_IsConnected])
             = Val (RET_OK (consts_of env), user')
       \<and> u_login user' = u_login user
       \<and> 29 < room
      \<longrightarrow> u_login user = 4242
          \<and> MT4_CreateUser env (Some json) (Some buf) room s =
              (Val MT4_SUCCESS,
               s\<lparr>trace := trace s @ [M_IsConnected, M_UserRecordNew user],
                 heap := (heap s)(buf := ''{\"success\":true,\"login\":4242}'' @ [CHR 0x00]
                                           @ drop 30 (heap s buf)),
                 g_lastError := []\<rparr>))
   \<and> (str_find json ''\"login\":4242,\"password\":\"x\",\"group\":\"g\"'' 0 = Some p
       \<and> str_find json ''\"login\":'' 0 = Some p
       \<and> str_find json ''\"password\":\"'' 0 = Some (p + 13)
       \<and> str_find json ''\"group\":\"'' 0 = Some (p + 28)
       \<and> str_find json ''\"name\":\"'' 0 = None
       \<and> 1 < sizeof_user_password (consts_of env) \<and> 1 < sizeof_user_group (consts_of env)
      \<longrightarrow> new_user_from_json (consts_of env) json = Val requested_user)"
proof (intro conjI impI)
  assume "str_find json ''\"name\":\"'' 0 = None"
  then show "extract_string json ''\"name\":\"'' 8 sz current = Val current"
    by (simp add: extract_string_def)
next
  assume "str_find json ''\"name\":\"'' 0 = None
       \<and> MT4_CreateUser env (Some json) buffer bufferSize s = (out, s')
       \<and> M_UserRecordNew sent \<in> set (drop (length (trace s)) (trace s'))"
  then show "u_name sent = u_name zero_UserRecord"
    by (blast intro: create_user_sends_default_name)
next
  assume h: "g_initialized s \<and> g_pManager s
       \<and> m_IsConnected (mgr env) (trace s) = Val c \<and> c \<noteq> 0
       \<and> str_find json ''\"login\":4242,\"password\":\"x\",\"group\":\"g\"'' 0 = Some p
       \<and> str_find json ''\"login\":'' 0 = Some p
       \<and> new_user_from_json (consts_of env) json = Val user
       \<and> m_UserRecordNew (mgr env) user (trace s @ [M_IsConnected])
             = Val (RET_OK (consts_of env), user')
       \<and> u_login user' = u_login user
       \<and> 29 < room"
  then have "extract_login json (u_login zero_UserRecord) = 4242"
    by (intro extract_login_example [where p = p]) simp_all
  moreover from h have "new_user_from_json (consts_of env) json = Val user"
    by simp
  ultimately show login: "u_login user = 4242"
    using new_user_login [of "consts_of env" json user] by simp
  with h show "MT4_CreateUser env (Some json) (Some buf) room s =
              (Val MT4_SUCCESS,
               s\<lparr>trace := trace s @ [M_IsConnected, M_UserRecordNew user],
                 heap := (heap s)(buf := ''{\"success\":true,\"login\":4242}'' @ [CHR 0x00]
                                           @ drop 30 (heap s buf)),
                 g_lastError := []\<rparr>)"
    by (intro create_user_success [where c = c and user' = user']) simp_all
next
  assume "str_find json ''\"login\":4242,\"password\":\"x\",\"group\":\"g\"'' 0 = Some p
       \<and> str_find json ''\"login\":'' 0 = Some p
       \<and> str_find json ''\"password\":\"'' 0 = Some (p + 13)
       \<and> str_find json ''\"group\":\"'' 0 = Some (p + 28)
       \<and> str_find json ''\"name\":\"'' 0 = None
       \<and> 1 < sizeof_user_password (consts_of env) \<and> 1 < sizeof_user_group (consts_of env)"
  then show "new_user_from_json (consts_of env) json = Val requested_user"
    by (intro new_user_example [where p = p]) simp_all
qed

theorem create_account_fields_witness:
  "extract_string ''{\"login\":4242,\"password\":\"x\",\"group\":\"g\"}'' ''\"name\":\"'' 8 128 []
     = Val []
   \<and> MT4_CreateUser demo_env (Some ''{\"login\":4242,\"password\":\"x\",\"group\":\"g\"}'')
         (Some 0) 64 ready_session =
       (Val MT4_SUCCESS,
        ready_session\<lparr>trace := trace ready_session @ [M_IsConnected, M_UserRecordNew requested_user],
          heap := demo_heap(0 := ''{\"success\":true,\"login\":4242}'' @ [CHR 0x00]
                                 @ ''..................................''),
          g_lastError := []\<rparr>)"
proof -
  let ?json = "''{\"login\":4242,\"password\":\"x\",\"group\":\"g\"}''"
  have no_name: "str_find ?json ''\"name\":\"'' 0 = None"
    by (simp add: str_find_def)
  have fragment: "str_find ?json ''\"login\":4242,\"password\":\"x\",\"group\":\"g\"'' 0 = Some 1"
    by (simp add: str_find_def)
  have login: "str_find ?json ''\"login\":'' 0 = Some 1"
    by (simp add: str_find_def)
  have password: "str_find ?json ''\"password\":\"'' 0 = Some (1 + 13)"
    by (simp add: str_find_def)
  have grp: "str_find ?json ''\"group\":\"'' 0 = Some (1 + 28)"
    by (simp add: str_find_def)
  note fields = create_account_fields [where json = ?json and env = demo_env
      and s = ready_session and c = 1 and p = 1 and user = requested_user
      and user' = requested_user and room = 64 and buf = 0 and sz = 128 and current = "[]"]
  have field: "extract_string ?json ''\"name\":\"'' 8 128 [] = Val []"
    using fields [THEN conjunct1] no_name by simp
  have parsed: "new_user_from_json (consts_of demo_env) ?json = Val requested_user"
    using fields [THEN conjunct2, THEN conjunct2, THEN conjunct2]
      fragment login password grp no_name
    by (simp add: demo_defs)
  have "MT4_CreateUser demo_env (Some ?json) (Some 0) 64 ready_session =
       (Val MT4_SUCCESS,
        ready_session\<lparr>trace := trace ready_session @ [M_IsConnected, M_UserRecordNew requested_user],
          heap := (heap ready_session)(0 := ''{\"success\":true,\"login\":4242}'' @ [CHR 0x00]
                                 @ drop 30 (heap ready_session 0)),
          g_lastError := []\<rparr>)"
    using fields [THEN conjunct2, THEN conjunct2, THEN conjunct1] fragment login parsed
    by (simp add: demo_defs)
  with field show ?thesis
    by (simp add: demo_defs)
qed

theorem create_account_earlier_login:
  "str_find ''{\"login\":7,\"x\":{\"login\":4242,\"password\":\"x\",\"group\":\"g\"}}''
     ''\"login\":4242,\"password\":\"x\",\"group\":\"g\"'' 0 = Some 16
   \<and> MT4_CreateUser demo_env
         (Some ''{\"login\":7,\"x\":{\"login\":4242,\"password\":\"x\",\"group\":\"g\"}}'')
         (Some 0) 64 ready_session =
       (Val MT4_SUCCESS,
        ready_session\<lparr>trace := trace ready_session @
            [M_IsConnected, M_UserRecordNew (requested_user\<lparr>u_login := 7\<rparr>)],
          heap := demo_heap(0 := ''{\"success\":true,\"login\":7}'' @ [CHR 0x00]
                                 @ ''.....................................''),
          g_lastError := []\<rparr>)
   \<and> str_find ''{\"success\":true,\"login\":7}'' ''4242'' 0 = None"
proof (intro conjI)
  show "str_find ''{\"login\":7,\"x\":{\"login\":4242,\"password\":\"x\",\"group\":\"g\"}}''
     ''\"login\":4242,\"password\":\"x\",\"group\":\"g\"'' 0 = Some 16"
    by (simp add: str_find_def)
next
  show "MT4_CreateUser demo_env
         (Some ''{\"login\":7,\"x\":{\"login\":4242,\"password\":\"x\",\"group\":\"g\"}}'')
         (Some 0) 64 ready_session =
       (Val MT4_SUCCESS,
        ready_session\<lparr>trace := trace ready_session @
            [M_IsConnected, M_UserRecordNew (requested_user\<lparr>u_login := 7\<rparr>)],
          heap := demo_heap(0 := ''{\"success\":true,\"login\":7}'' @ [CHR 0x00]
                                 @ ''.....................................''),
          g_lastError := []\<rparr>)"
    by (rule earlier_login_run [OF earlier_login_parsed])
next
  show "str_find ''{\"success\":true,\"login\":7}'' ''4242'' 0 = None"
    by (simp add: str_find_def)
qed

section \<open>A buffer too small for the serialized text\<close>

lemma GetUserInfo_small:
  assumes "g_initialized s" "g_pManager s" "0 < bufferSize"
    and "m_UserRecordsRequest (mgr env) [login] (trace s) = Val (Some (a, u # us))"
    and "bufferSize \<le> int (length (user_info_json env u))"
  shows "MT4_GetUserInfo env login (Some buf) bufferSize s =
           (Val MT4_ERROR_BUFFER_TOO_SMALL,
            s\<lparr>trace := trace s @ [M_UserRecordsRequest [login], M_MemFree a],
              g_lastError := ''Buffer too small''\<rparr>)"
  using assms by (simp add: MT4_GetUserInfo_def op_defs)

lemma GetAllUsers_small:
  assumes "g_initialized s" "g_pManager s" "0 < bufferSize"
    and "m_UsersRequest (mgr env) (trace s) = Val (Some (a, u # us))"
    and "bufferSize \<le> int (length (json_array 100 (user_item_json env) (u # us)))"
  shows "MT4_GetAllUsers env (Some buf) bufferSize s =
           (Val MT4_ERROR_BUFFER_TOO_SMALL,
            s\<lparr>trace := trace s @ [M_UsersRequest, M_MemFree a],
              g_lastError := ''Buffer too small''\<rparr>)"
  using assms by (simp add: MT4_GetAllUsers_def op_defs)

lemma GetTrades_user_small:
  assumes "g_initialized s" "g_pManager s" "0 < bufferSize" "0 < login"
    and "os_time (sys env) (trace s) = Val now"
    and "m_TradesUserHistory (mgr env) login 0 now (trace s @ [C_time]) = Val (Some (a, t # ts))"
    and "bufferSize \<le> int (length (json_array 100 (trade_item_json env) (t # ts)))"
  shows "MT4_GetTrades env login (Some buf) bufferSize s =
           (Val MT4_ERROR_BUFFER_TOO_SMALL,
            s\<lparr>trace := trace s @ [C_time, M_TradesUserHistory login 0 now, M_MemFree a],
              g_lastError := ''Buffer too small''\<rparr>)"
  using assms by (simp add: MT4_GetTrades_def op_defs)

lemma GetTrades_all_small:
  assumes "g_initialized s" "g_pManager s" "0 < bufferSize" "login \<le> 0"
    and "m_TradesRequest (mgr env) (trace s) = Val (Some (a, t # ts))"
    and "bufferSize \<le> int (length (json_array 100 (trade_item_json env) (t # ts)))"
  shows "MT4_GetTrades env login (Some buf) bufferSize s =
           (Val MT4_ERROR_BUFFER_TOO_SMALL,
            s\<lparr>trace := trace s @ [M_TradesRequest, M_MemFree a],
              g_lastError := ''Buffer too small''\<rparr>)"
  using assms by (simp add: MT4_GetTrades_def op_defs)

lemma GetSymbols_small:
  assumes "g_initialized s" "g_pManager s" "0 < bufferSize"
    and "m_SymbolsRefresh (mgr env) (trace s) = Val r"
    and "m_SymbolsGetAll (mgr env) (trace s @ [M_SymbolsRefresh]) = Val (Some (a, c # cs))"
    and "bufferSize \<le> int (length (json_array 50 (symbol_item_json env) (c # cs)))"
  shows "MT4_GetSymbols env (Some buf) bufferSize s =
           (Val MT4_ERROR_BUFFER_TOO_SMALL,
            s\<lparr>trace := trace s @ [M_SymbolsRefresh, M_SymbolsGetAll, M_MemFree a],
              g_lastError := ''Buffer too small''\<rparr>)"
  using assms by (simp add: MT4_GetSymbols_def op_defs)

lemma OpenTrade_small:
  assumes "g_initialized s" "g_pManager s" "0 < bufferSize"
    and "m_IsConnected (mgr env) (trace s) = Val c" "c \<noteq> 0"
    and "open_trade_info (consts_of env) symb cmd volume price stoploss takeprofit comment
           = Val trade"
    and "m_TradeTransaction (mgr env) trade (trace s @ [M_IsConnected])
           = Val (RET_OK (consts_of env), trade')"
    and "bufferSize \<le> int (length (order_json trade'))"
  shows "MT4_OpenTrade env login (Some symb) cmd volume price stoploss takeprofit comment
           (Some buf) bufferSize s =
           (Val MT4_ERROR_BUFFER_TOO_SMALL,
            s\<lparr>trace := trace s @ [M_IsConnected, M_TradeTransaction trade],
              g_lastError := ''Buffer too small''\<rparr>)"
  using assms by (simp add: MT4_OpenTrade_def op_defs)

lemma CreateUser_small:
  assumes "g_initialized s" "g_pManager s" "0 < bufferSize"
    and "m_IsConnected (mgr env) (trace s) = Val c" "c \<noteq> 0"
    and "new_user_from_json (consts_of env) json = Val user"
    and "m_UserRecordNew (mgr env) user (trace s @ [M_IsConnected])
           = Val (RET_OK (consts_of env), user')"
    and "bufferSize \<le> int (length (created_json user'))"
  shows "MT4_CreateUser env (Some json) (Some buf) bufferSize s =
           (Val MT4_ERROR_BUFFER_TOO_SMALL,
            s\<lparr>trace := trace s @ [M_IsConnected, M_UserRecordNew user],
              g_lastError := ''Buffer too small''\<rparr>)"
  using assms by (simp add: MT4_CreateUser_def op_defs)

lemma GetQuote_updated_small:
  assumes "g_initialized s" "g_pManager s" "0 < bufferSize"
    and "m_IsConnected (mgr env) (trace s) = Val c" "c \<noteq> 0"
    and "m_SymbolInfoUpdated (mgr env) 128 (trace s @ [M_IsConnected]) = Val infos"
    and "find (\<lambda>si. si_symbol si = symb) infos = Some t"
    and "0 < si_bid t \<or> 0 < si_ask t"
    and "bufferSize \<le> int (length (quote_json env symb (si_bid t) (si_ask t) (si_spread t)
                                      (si_digits t) (si_lasttime t)))"
  shows "MT4_GetQuote env (Some symb) (Some buf) bufferSize s =
           (Val MT4_ERROR_BUFFER_TOO_SMALL,
            s\<lparr>trace := trace s @ [M_IsConnected, M_SymbolInfoUpdated 128],
              g_lastError := ''Buffer too small for quote data''\<rparr>)"
  using assms by (simp add: MT4_GetQuote_def emit_quote_def op_defs)

lemma GetQuote_ticks_small:
  assumes "g_initialized s" "g_pManager s" "0 < bufferSize"
    and "m_IsConnected (mgr env) (trace s) = Val c" "c \<noteq> 0"
    and "m_SymbolInfoUpdated (mgr env) 128 (trace s @ [M_IsConnected]) = Val infos"
    and "stale_quote infos symb"
    and "m_TickInfoLast (mgr env) symb (trace s @ [M_IsConnected, M_SymbolInfoUpdated 128])
           = Val (Some (a, t # ts))"
    and "m_SymbolInfoGet (mgr env) symb zero_SymbolInfo
           (trace s @ [M_IsConnected, M_SymbolInfoUpdated 128, M_TickInfoLast symb])
           = Val (r, info)"
    and "bufferSize \<le> int (length (quote_json env symb (ti_bid (last (t # ts)))
             (ti_ask (last (t # ts)))
             (double_to_int (d_mul (d_sub (ti_ask (last (t # ts))) (ti_bid (last (t # ts))))
                               (d_pow10 (si_digits info))))
             (si_digits info) (ti_ctm (last (t # ts)))))"
  shows "MT4_GetQuote env (Some symb) (Some buf) bufferSize s =
           (Val MT4_ERROR_BUFFER_TOO_SMALL,
            s\<lparr>trace := trace s @ [M_IsConnected, M_SymbolInfoUpdated 128, M_TickInfoLast symb,
                                  M_SymbolInfoGet symb],
              g_lastError := ''Buffer too small for quote data''\<rparr>)"
  using assms
  by (auto simp: MT4_GetQuote_def quote_from_ticks_def emit_quote_def stale_quote_def op_defs
        Let_def split: option.splits)

lemma GetQuote_info_small:
  assumes "g_initialized s" "g_pManager s" "0 < bufferSize"
    and "m_IsConnected (mgr env) (trace s) = Val c" "c \<noteq> 0"
    and "m_SymbolInfoUpdated (mgr env) 128 (trace s @ [M_IsConnected]) = Val infos"
    and "stale_quote infos symb"
    and "m_TickInfoLast (mgr env) symb (trace s @ [M_IsConnected, M_SymbolInfoUpdated 128])
           = Val ticks"
    and "ticks = None \<or> (\<exists>a. ticks = Some (a, []))"
    and "m_SymbolInfoGet (mgr env) symb zero_SymbolInfo
           (trace s @ [M_IsConnected, M_SymbolInfoUpdated 128, M_TickInfoLast symb])
           = Val (RET_OK (consts_of env), info)"
    and "os_time (sys env)
           (trace s @ [M_IsConnected, M_SymbolInfoUpdated 128, M_TickInfoLast symb,
                       M_SymbolInfoGet symb]) = Val now"
    and "bufferSize \<le> int (length (quote_json env symb (si_bid info) (si_ask info)
                                      (si_spread info) (si_digits info) now))"
  shows "MT4_GetQuote env (Some symb) (Some buf) bufferSize s =
           (Val MT4_ERROR_BUFFER_TOO_SMALL,
            s\<lparr>trace := trace s @ [M_IsConnected, M_SymbolInfoUpdated 128, M_TickInfoLast symb,
                                  M_SymbolInfoGet symb, C_time],
              g_lastError := ''Buffer too small for quote data''\<rparr>)"
  using assms
  by (auto simp: MT4_GetQuote_def quote_from_ticks_def emit_quote_def stale_quote_def op_defs
        Let_def split: option.splits)

text \<open>
  Claim C2, as the code has it. On an initialized session and for every positive
  capacity, whenever the text a serializing operation (get user, list users, list trades,
  list symbols, open trade, create user, get quote) has built is at least as long as the
  capacity, so that the text and its terminator do not fit, the operation returns
  \<open>MT4_ERROR_BUFFER_TOO_SMALL\<close> and the caller's memory is as it was: nothing is written,
  in part or in full. The conjuncts are the paths on which a text is built: a non-empty
  block of users, of trades (of one login, or of all) or of symbols, an accepted
  transaction, an accepted new account, and the three sources of a quote. A text one byte
  shorter than the capacity fits with its terminator and is written, as the evaluation
  after the theorem shows; the empty-array answer of the list operations is not among
  the paths.
\<close>

theorem too_small_buffer_untouched:
  assumes "g_initialized s" and "g_pManager s" and "0 < bufferSize"
  shows
    "(m_UserRecordsRequest (mgr env) [login] (trace s) = Val (Some (a, u # us))
        \<and> bufferSize \<le> int (length (user_info_json env u))
      \<longrightarrow> refuses_unwritten (MT4_GetUserInfo env login (Some buf) bufferSize) s)
   \<and> (m_UsersRequest (mgr env) (trace s) = Val (Some (a, u # us))
        \<and> bufferSize \<le> int (length (json_array 100 (user_item_json env) (u # us)))
      \<longrightarrow> refuses_unwritten (MT4_GetAllUsers env (Some buf) bufferSize) s)
   \<and> (0 < login \<and> os_time (sys env) (trace s) = Val now
        \<and> m_TradesUserHistory (mgr env) login 0 now (trace s @ [C_time])
            = Val (Some (a, tr # trs))
        \<and> bufferSize \<le> int (length (json_array 100 (trade_item_json env) (tr # trs)))
      \<longrightarrow> refuses_unwritten (MT4_GetTrades env login (Some buf) bufferSize) s)
   \<and> (login \<le> 0 \<and> m_TradesRequest (mgr env) (trace s) = Val (Some (a, tr # trs))
        \<and> bufferSize \<le> int (length (json_array 100 (trade_item_json env) (tr # trs)))
      \<longrightarrow> refuses_unwritten (MT4_GetTrades env login (Some buf) bufferSize) s)
   \<and> (m_SymbolsRefresh (mgr env) (trace s) = Val r
        \<and> m_SymbolsGetAll (mgr env) (trace s @ [M_SymbolsRefresh]) = Val (Some (a, sy # sys'))
        \<and> bufferSize \<le> int (length (json_array 50 (symbol_item_json env) (sy # sys')))
      \<longrightarrow> refuses_unwritten (MT4_GetSymbols env (Some buf) bufferSize) s)
   \<and> (m_IsConnected (mgr env) (trace s) = Val c \<and> c \<noteq> 0
        \<and> open_trade_info (consts_of env) symb cmd volume price stoploss takeprofit comment
            = Val trade
        \<and> m_TradeTransaction (mgr env) trade (trace s @ [M_IsConnected])
            = Val (RET_OK (consts_of env), trade')
        \<and> bufferSize \<le> int (length (order_json trade'))
      \<longrightarrow> refuses_unwritten
            (MT4_OpenTrade env login (Some symb) cmd volume price stoploss takeprofit comment
               (Some buf) bufferSize) s)
   \<and> (m_IsConnected (mgr env) (trace s) = Val c \<and> c \<noteq> 0
        \<and> new_user_from_json (consts_of env) json = Val user
        \<and> m_UserRecordNew (mgr env) user (trace s @ [M_IsConnected])
            = Val (RET_OK (consts_of env), user')
        \<and> bufferSize \<le> int (length (created_json user'))
      \<longrightarrow> refuses_unwritten (MT4_CreateUser env (Some json) (Some buf) bufferSize) s)
   \<and> (m_IsConnected (mgr env) (trace s) = Val c \<and> c \<noteq> 0
        \<and> m_SymbolInfoUpdated (mgr env) 128 (trace s @ [M_IsConnected]) = Val infos
        \<and> find (\<lambda>si. si_symbol si = symb) infos = Some target
        \<and> (0 < si_bid target \<or> 0 < si_ask target)
        \<and> bufferSize \<le> int (length (quote_json env symb (si_bid target) (si_ask target)
                                         (si_spread target) (si_digits target)
                                         (si_lasttime target)))
      \<longrightarrow> refuses_unwritten (MT4_GetQuote env (Some symb) (Some buf) bufferSize) s)
   \<and> (m_IsConnected (mgr env) (trace s) = Val c \<and> c \<noteq> 0
        \<and> m_SymbolInfoUpdated (mgr env) 128 (trace s @ [M_IsConnected]) = Val infos
        \<and> stale_quote infos symb
        \<and> m_TickInfoLast (mgr env) symb (trace s @ [M_IsConnected, M_SymbolInfoUpdated 128])
            = Val (Some (a, tk # tks))
        \<and> m_SymbolInfoGet (mgr env) symb zero_SymbolInfo
             (trace s @ [M_IsConnected, M_SymbolInfoUpdated 128, M_TickInfoLast symb])
            = Val (r, info)
        \<and> bufferSize \<le> int (length (quote_json env symb (ti_bid (last (tk # tks)))
             (ti_ask (last (tk # tks)))
             (double_to_int (d_mul (d_sub (ti_ask (last (tk # tks))) (ti_bid (last (tk # tks))))
                               (d_pow10 (si_digits info))))
             (si_digits info) (ti_ctm (last (tk # tks)))))
      \<longrightarrow> refuses_unwritten (MT4_GetQuote env (Some symb) (Some buf) bufferSize) s)
   \<and> (m_IsConnected (mgr env) (trace s) = Val c \<and> c \<noteq> 0
        \<and> m_SymbolInfoUpdated (mgr env) 128 (trace s @ [M_IsConnected]) = Val infos
        \<and> stale_quote infos symb
        \<and> m_TickInfoLast (mgr env) symb (trace s @ [M_IsConnected, M_SymbolInfoUpdated 128])
            = Val ticks
        \<and> (ticks = None \<or> (\<exists>b. ticks = Some (b, [])))
        \<and> m_SymbolInfoGet (mgr env) symb zero_SymbolInfo
             (trace s @ [M_IsConnected, M_SymbolInfoUpdated 128, M_TickInfoLast symb])
            = Val (RET_OK (consts_of env), info)
        \<and> os_time (sys env)
             (trace s @ [M_IsConnected, M_SymbolInfoUpdated 128, M_TickInfoLast symb,
                         M_SymbolInfoGet symb]) = Val now
        \<and> bufferSize \<le> int (length (quote_json env symb (si_bid info) (si_ask info)
                                         (si_spread info) (si_digits info) now))
      \<longrightarrow> refuses_unwritten (MT4_GetQuote env (Some symb) (Some buf) bufferSize) s)"
proof (intro conjI impI; elim conjE)
  note [simp] = refuses_unwritten_def
  {
    assume "m_UserRecordsRequest (mgr env) [login] (trace s) = Val (Some (a, u # us))"
      and "bufferSize \<le> int (length (user_info_json env u))"
    with assms show "refuses_unwritten (MT4_GetUserInfo env login (Some buf) bufferSize) s"
      by (simp add: GetUserInfo_small)
  next
    assume "m_UsersRequest (mgr env) (trace s) = Val (Some (a, u # us))"
      and "bufferSize \<le> int (length (json_array 100 (user_item_json env) (u # us)))"
    with assms show "refuses_unwritten (MT4_GetAllUsers env (Some buf) bufferSize) s"
      by (simp add: GetAllUsers_small)
  next
    assume "0 < login" and "os_time (sys env) (trace s) = Val now"
      and "m_TradesUserHistory (mgr env) login 0 now (trace s @ [C_time])
             = Val (Some (a, tr # trs))"
      and "bufferSize \<le> int (length (json_array 100 (trade_item_json env) (tr # trs)))"
    with assms show "refuses_unwritten (MT4_GetTrades env login (Some buf) bufferSize) s"
      by (simp add: GetTrades_user_small)
  next
    assume "login \<le> 0" and "m_TradesRequest (mgr env) (trace s) = Val (Some (a, tr # trs))"
      and "bufferSize \<le> int (length (json_array 100 (trade_item_json env) (tr # trs)))"
    with assms show "refuses_unwritten (MT4_GetTrades env login (Some buf) bufferSize) s"
      by (simp add: GetTrades_all_small)
  next
    assume "m_SymbolsRefresh (mgr env) (trace s) = Val r"
      and "m_SymbolsGetAll (mgr env) (trace s @ [M_SymbolsRefresh]) = Val (Some (a, sy # sys'))"
      and "bufferSize \<le> int (length (json_array 50 (symbol_item_json env) (sy # sys')))"
    with assms show "refuses_unwritten (MT4_GetSymbols env (Some buf) bufferSize) s"
      by (simp add: GetSymbols_small)
  next
    assume "m_IsConnected (mgr env) (trace s) = Val c" and "c \<noteq> 0"
      and "open_trade_info (consts_of env) symb cmd volume price stoploss takeprofit comment
             = Val trade"
      and "m_TradeTransaction (mgr env) trade (trace s @ [M_IsConnected])
             = Val (RET_OK (consts_of env), trade')"
      and "bufferSize \<le> int (length (order_json trade'))"
    with assms show "refuses_unwritten
            (MT4_OpenTrade env login (Some symb) cmd volume price stoploss takeprofit comment
               (Some buf) bufferSize) s"
      by (simp add: OpenTrade_small)
  next
    assume "m_IsConnected (mgr env) (trace s) = Val c" and "c \<noteq> 0"
      and "new_user_from_json (consts_of env) json = Val user"
      and "m_UserRecordNew (mgr env) user (trace s @ [M_IsConnected])
             = Val (RET_OK (consts_of env), user')"
      and "bufferSize \<le> int (length (created_json user'))"
    with assms show "refuses_unwritten (MT4_CreateUser env (Some json) (Some buf) bufferSize) s"
      by (simp add: CreateUser_small)
  next
    assume "m_IsConnected (mgr env) (trace s) = Val c" and "c \<noteq> 0"
      and "m_SymbolInfoUpdated (mgr env) 128 (trace s @ [M_IsConnected]) = Val infos"
      and "find (\<lambda>si. si_symbol si = symb) infos = Some target"
      and "0 < si_bid target \<or> 0 < si_ask target"
      and "bufferSize \<le> int (length (quote_json env symb (si_bid target) (si_ask target)
                                         (si_spread target) (si_digits target)
                                         (si_lasttime target)))"
    with assms show "refuses_unwritten (MT4_GetQuote env (Some symb) (Some buf) bufferSize) s"
      using GetQuote_updated_small [of s bufferSize env c infos symb target buf] by simp
  next
    assume "m_IsConnected (mgr env) (trace s) = Val c" and "c \<noteq> 0"
      and "m_SymbolInfoUpdated (mgr env) 128 (trace s @ [M_IsConnected]) = Val infos"
      and "stale_quote infos symb"
      and "m_TickInfoLast (mgr env) symb (trace s @ [M_IsConnected, M_SymbolInfoUpdated 128])
             = Val (Some (a, tk # tks))"
      and "m_SymbolInfoGet (mgr env) symb zero_SymbolInfo
             (trace s @ [M_IsConnected, M_SymbolInfoUpdated 128, M_TickInfoLast symb])
             = Val (r, info)"
      and "bufferSize \<le> int (length (quote_json env symb (ti_bid (last (tk # tks)))
             (ti_ask (last (tk # tks)))
             (double_to_int (d_mul (d_sub (ti_ask (last (tk # tks))) (ti_bid (last (tk # tks))))
                               (d_pow10 (si_digits info))))
             (si_digits info) (ti_ctm (last (tk # tks)))))"
    with assms show "refuses_unwritten (MT4_GetQuote env (Some symb) (Some buf) bufferSize) s"
      using GetQuote_ticks_small [of s bufferSize env c infos symb a tk tks r info buf] by simp
  next
    assume "m_IsConnected (mgr env) (trace s) = Val c" and "c \<noteq> 0"
      and "m_SymbolInfoUpdated (mgr env) 128 (trace s @ [M_IsConnected]) = Val infos"
      and "stale_quote infos symb"
      and "m_TickInfoLast (mgr env) symb (trace s @ [M_IsConnected, M_SymbolInfoUpdated 128])
             = Val ticks"
      and "ticks = None \<or> (\<exists>b. ticks = Some (b, []))"
      and "m_SymbolInfoGet (mgr env) symb zero_SymbolInfo
             (trace s @ [M_IsConnected, M_SymbolInfoUpdated 128, M_TickInfoLast symb])
             = Val (RET_OK (consts_of env), info)"
      and "os_time (sys env)
             (trace s @ [M_IsConnected, M_SymbolInfoUpdated 128, M_TickInfoLast symb,
                         M_SymbolInfoGet symb]) = Val now"
      and "bufferSize \<le> int (length (quote_json env symb (si_bid info) (si_ask info)
                                         (si_spread info) (si_digits info) now))"
    with assms show "refuses_unwritten (MT4_GetQuote env (Some symb) (Some buf) bufferSize) s"
      using GetQuote_info_small [of s bufferSize env c infos symb ticks info now buf] by simp
  }
qed

theorem too_small_buffer_untouched_witness:
  "refuses_unwritten (MT4_GetUserInfo users_env 4242 (Some 0) 8) ready_session
   \<and> refuses_unwritten
       (MT4_OpenTrade demo_env 4242 (Some ''EURUSD'') 0 1 1 0 0 None (Some 0) 11) ready_session
   \<and> refuses_unwritten (MT4_GetQuote demo_env (Some ''EURUSD'') (Some 0) 8) ready_session"
proof -
  have users: "refuses_unwritten (MT4_GetUserInfo users_env 4242 (Some 0) 8) ready_session"
    using too_small_buffer_untouched [where s = ready_session and bufferSize = 8
        and env = users_env and login = 4242 and a = 8192 and u = demo_user and us = "[]"
        and buf = 0]
    by (simp add: demo_defs users_env_def demo_user_def user_info_json_def)
  have info: "open_trade_info demo_api ''EURUSD'' 0 1 1 0 0 None
                = Val (zero_TradeTransInfo\<lparr>tt_symbol := ''EURUSD'',
                         tt_volume := lots_to_volume 1, tt_price := 1\<rparr>)"
    by (simp add: open_trade_info_def strcpy_s_def res_then_def demo_api_def
          zero_TradeTransInfo_def)
  have len: "int (length (order_json (zero_TradeTransInfo\<lparr>tt_symbol := ''EURUSD'',
                 tt_volume := lots_to_volume 1, tt_price := 1, tt_order := 7\<rparr>))) = 11"
    by (simp add: order_json_def show_int_def show_nat.simps digit_char_def)
  have order: "refuses_unwritten
       (MT4_OpenTrade demo_env 4242 (Some ''EURUSD'') 0 1 1 0 0 None (Some 0) 11) ready_session"
    using too_small_buffer_untouched [where s = ready_session and bufferSize = 11
        and env = demo_env and login = 4242 and c = 1 and symb = "''EURUSD''" and cmd = 0
        and volume = 1 and price = 1 and stoploss = 0 and takeprofit = 0 and comment = None
        and trade = "zero_TradeTransInfo\<lparr>tt_symbol := ''EURUSD'',
                         tt_volume := lots_to_volume 1, tt_price := 1\<rparr>"
        and trade' = "zero_TradeTransInfo\<lparr>tt_symbol := ''EURUSD'',
                         tt_volume := lots_to_volume 1, tt_price := 1, tt_order := 7\<rparr>"
        and buf = 0] info len
    by (simp add: demo_defs)
  have quote: "refuses_unwritten (MT4_GetQuote demo_env (Some ''EURUSD'') (Some 0) 8) ready_session"
    using too_small_buffer_untouched [where s = ready_session and bufferSize = 8
        and env = demo_env and c = 1 and symb = "''EURUSD''" and infos = "[]" and a = 4096
        and tk = demo_tick and tks = "[]" and r = 0
        and info = "zero_SymbolInfo\<lparr>si_symbol := ''EURUSD'', si_digits := 5\<rparr>"
        and buf = 0]
    by (simp add: demo_defs stale_quote_def quote_json_def)
  from users order quote show ?thesis by simp
qed

theorem exact_fit_is_written:
  "int (length ''{\"order\":7}'') + 1 = 12
   \<and> MT4_OpenTrade demo_env 4242 (Some ''EURUSD'') 0 1 1 0 0 None (Some 0) 12 ready_session =
       (Val MT4_SUCCESS,
        ready_session\<lparr>trace := trace ready_session @
           [M_IsConnected,
            M_TradeTransaction (zero_TradeTransInfo\<lparr>tt_symbol := ''EURUSD'',
               tt_volume := lots_to_volume 1, tt_price := 1\<rparr>)],
          heap := store_string 0 ''{\"order\":7}'' (heap ready_session),
          g_lastError := []\<rparr>)
   \<and> store_string 0 ''{\"order\":7}'' (heap ready_session) 0 \<noteq> heap ready_session 0
   \<and> MT4_SUCCESS \<noteq> MT4_ERROR_BUFFER_TOO_SMALL"
  by (simp add: MT4_OpenTrade_def op_defs demo_defs order_json_def open_trade_info_def
        strcpy_s_def show_int_def show_nat.simps digit_char_def zero_TradeTransInfo_def
        store_string_def return_codes)

section \<open>The last-error text\<close>














































end
